theory Spec2Isabelle
  imports Main "HOL-Library.Word"
begin

section \<open>Python strings\<close>

text \<open>
  A Python \<open>str\<close> is a sequence of Unicode code points; it is modelled as a list of
  natural numbers. \<open>ascii\<close> writes an ASCII literal of the source.
\<close>

type_synonym pystr = "nat list"

definition ascii :: "string \<Rightarrow> pystr" where
  "ascii s = map of_char s"

text \<open>
  \<open>str.isspace\<close> on one code point: the 29 white space characters of CPython 3
  (U+0009..U+000D, U+001C..U+0020, U+0085, U+00A0, U+1680, U+2000..U+200A, U+2028,
  U+2029, U+202F, U+205F, U+3000). \<open>str.strip()\<close> removes them from both ends.
\<close>

definition py_isspace :: "nat \<Rightarrow> bool" where
  "py_isspace c =
     ((9 \<le> c \<and> c \<le> 13) \<or> (28 \<le> c \<and> c \<le> 32) \<or> c = 133 \<or> c = 160 \<or> c = 5760 \<or>
      (8192 \<le> c \<and> c \<le> 8202) \<or> c = 8232 \<or> c = 8233 \<or> c = 8239 \<or> c = 8287 \<or>
      c = 12288)"

definition strip :: "pystr \<Rightarrow> pystr" where
  "strip s = rev (dropWhile py_isspace (rev (dropWhile py_isspace s)))"

text \<open>
  \<open>\d\<close> of the \<open>re\<close> module on a \<open>str\<close> pattern: the code points of Unicode category
  Nd. Every block of decimal digits is ten consecutive code points; \<open>nd_blocks\<close> lists
  the first code point of each block (Unicode 14.0, the table of CPython 3.11).
\<close>

definition nd_blocks :: "nat list" where
  "nd_blocks =
     [48, 1632, 1776, 1984, 2406, 2534, 2662, 2790, 2918, 3046, 3174, 3302, 3430, 3558,
      3664, 3792, 3872, 4160, 4240, 6112, 6160, 6470, 6608, 6784, 6800, 6992, 7088, 7232,
      7248, 42528, 43216, 43264, 43472, 43504, 43600, 44016, 65296, 66720, 68912, 69734,
      69872, 69942, 70096, 70384, 70736, 70864, 71248, 71360, 71472, 71904, 72016, 72784,
      73040, 73120, 92768, 92864, 93008, 120782, 120792, 120802, 120812, 120822, 123200,
      123632, 125264, 130032]"

definition py_isdecimal :: "nat \<Rightarrow> bool" where
  "py_isdecimal c = list_ex (\<lambda>b. b \<le> c \<and> c < b + 10) nd_blocks"

text \<open>
  \<open>re.match(r'^\d+$', s)\<close> as a truth value. Without \<open>re.MULTILINE\<close>, \<open>$\<close> matches at
  the end of the string and also just before a line feed that ends the string.
\<close>

definition re_match_digits :: "pystr \<Rightarrow> bool" where
  "re_match_digits s =
     (let body = (if s \<noteq> [] \<and> last s = 10 then butlast s else s)
      in body \<noteq> [] \<and> list_all py_isdecimal body)"

text \<open>\<open>sep.join(parts)\<close>.\<close>

fun join :: "pystr \<Rightarrow> pystr list \<Rightarrow> pystr" where
  "join sep [] = []"
| "join sep [p] = p"
| "join sep (p # q # ps) = p @ sep @ join sep (q # ps)"

text \<open>\<open>s.split('\n', 1)\<close>: at most one split, at the first line feed.\<close>

definition split_first_line :: "pystr \<Rightarrow> pystr list" where
  "split_first_line s =
     (case dropWhile (\<lambda>c. c \<noteq> 10) s of
        [] \<Rightarrow> [s]
      | _ # rest \<Rightarrow> [takeWhile (\<lambda>c. c \<noteq> 10) s, rest])"

text \<open>\<open>s.startswith('/')\<close>.\<close>

definition startswith_slash :: "pystr \<Rightarrow> bool" where
  "startswith_slash s = (case s of [] \<Rightarrow> False | c # _ \<Rightarrow> c = 47)"

text \<open>\<open>str(n)\<close> for a length.\<close>

fun str_nat :: "nat \<Rightarrow> pystr" where
  "str_nat n = (if n < 10 then [48 + n] else str_nat (n div 10) @ [48 + n mod 10])"

declare str_nat.simps [simp del]


section \<open>The fetched page, as the selectors of the scraper see it\<close>

text \<open>
  A \<open>td\<close> element is modelled by what the scraper reads of it: its text nodes in
  document order (\<open>.text\<close> concatenates them, \<open>get_text(separator='\n')\<close> joins them
  with line feeds) and its \<open>a\<close> descendants in document order, each with the value of
  its \<open>href\<close> attribute when it has one (\<open>select_one('a')\<close> takes the first).
  A row is the result of \<open>row.select('td')\<close>, and the results table the result of
  \<open>main_table.select('tr')\<close>.
\<close>

record cell =
  strings :: "pystr list"
  anchors :: "pystr option list"

type_synonym row = "cell list"

definition cell_text :: "cell \<Rightarrow> pystr" where
  "cell_text c = concat (strings c)"

definition get_text :: "pystr \<Rightarrow> cell \<Rightarrow> pystr" where
  "get_text separator c = join separator (strings c)"

text \<open>
  The outcome of \<open>requests.get\<close>: a \<open>RequestException\<close> (no connection, timeout, too
  many redirects), or a response with its status code and its body; of the body the
  model keeps \<open>soup.select_one('table.tb_01')\<close>: \<open>None\<close> when the page has no such table,
  and its rows otherwise.
\<close>

datatype fetch = Request_exception | Response nat "row list option"

text \<open>\<open>response.raise_for_status()\<close> raises \<open>HTTPError\<close> for the statuses 400 to 599.\<close>

definition raise_for_status :: "nat \<Rightarrow> bool" where
  "raise_for_status status_code = (400 \<le> status_code \<and> status_code < 600)"


section \<open>Tender records\<close>

text \<open>
  The dictionary that \<open>_parse_tender_row\<close> builds has a fixed set of keys; the key
  \<open>'id'\<close> is the field \<open>tender_id\<close>.
\<close>

record tender =
  tender_id :: pystr
  title :: pystr
  organization :: pystr
  transmission :: pystr
  tender_method :: pystr
  tender_type :: pystr
  announcement_date :: pystr
  deadline :: pystr
  budget :: pystr
  link :: pystr
  found_date :: pystr

datatype level = WARNING | ERROR

text \<open>
  \<open>_parse_tender_row\<close>. The current time \<open>now\<close> is the formatted \<open>datetime.now()\<close>.
  The source returns \<open>None\<close> on two paths, each after one log record: a warning when the
  row has fewer than 9 cells, an error when an exception was caught. \<open>Inl\<close> carries the
  level of that record. No operation of the body raises on a row of this model, so the
  \<open>except Exception\<close> path is never taken.
\<close>

definition parse_tender_row :: "pystr \<Rightarrow> row \<Rightarrow> level + tender" where
  "parse_tender_row now cells =
     (if length cells < 9 then Inl WARNING
      else
        let tender_cell = cells ! 2;
            tender_text = strip (get_text [10] tender_cell);
            tender_parts = split_first_line tender_text;
            href_link =
              (case anchors tender_cell of
                 Some href # _ \<Rightarrow>
                   if startswith_slash href then ascii ''https://web.pcc.gov.tw'' @ href
                   else ascii ''https://web.pcc.gov.tw/'' @ href
               | _ \<Rightarrow> [])
        in Inr \<lparr>tender_id = strip (tender_parts ! 0),
                title = (if length tender_parts > 1 then strip (tender_parts ! 1)
                         else ascii ''Unknown Title''),
                organization = strip (cell_text (cells ! 1)),
                transmission = strip (cell_text (cells ! 3)),
                tender_method = strip (cell_text (cells ! 4)),
                tender_type = strip (cell_text (cells ! 5)),
                announcement_date = strip (cell_text (cells ! 6)),
                deadline = strip (cell_text (cells ! 7)),
                budget = strip (cell_text (cells ! 8)),
                link = href_link,
                found_date = now\<rparr>)"

text \<open>
  The loop of \<open>search_tenders\<close> that collects \<open>data_rows\<close>: a row is kept when it has
  at least 9 cells and the stripped text of its first cell matches \<open>^\d+$\<close>.
\<close>

fun data_rows :: "row list \<Rightarrow> row list" where
  "data_rows [] = []"
| "data_rows (cells # tender_rows) =
     (if cells \<noteq> [] \<and> length cells \<ge> 9 then
        (if re_match_digits (strip (cell_text (cells ! 0)))
         then cells # data_rows tender_rows
         else data_rows tender_rows)
      else data_rows tender_rows)"


section \<open>The scraper and its persisted history\<close>

text \<open>
  The strict UTF-8 codec, as \<open>open(..., encoding='utf-8')\<close> applies it when the file is
  read: the code points of a byte string, or \<open>None\<close> where Python raises
  \<open>UnicodeDecodeError\<close> (a byte that cannot start a character, a cut or wrong
  continuation, an overlong form, a surrogate, a code point above U+10FFFF).
\<close>

type_synonym byte = "8 word"

definition continuation :: "nat \<Rightarrow> bool" where
  "continuation b = (128 \<le> b \<and> b < 192)"

fun utf8_points :: "nat list \<Rightarrow> pystr option" where
  "utf8_points [] = Some []"
| "utf8_points (b0 # bs) =
     (if b0 < 128 then map_option ((#) b0) (utf8_points bs)
      else if 194 \<le> b0 \<and> b0 < 224 then
        (case bs of
           b1 # rest \<Rightarrow>
             if continuation b1
             then map_option ((#) ((b0 - 192) * 64 + (b1 - 128))) (utf8_points rest)
             else None
         | _ \<Rightarrow> None)
      else if 224 \<le> b0 \<and> b0 < 240 then
        (case bs of
           b1 # b2 # rest \<Rightarrow>
             if continuation b1 \<and> continuation b2
                \<and> (if b0 = 224 then 160 \<le> b1 else True)
                \<and> (if b0 = 237 then b1 < 160 else True)
             then map_option ((#) ((b0 - 224) * 4096 + (b1 - 128) * 64 + (b2 - 128)))
                    (utf8_points rest)
             else None
         | _ \<Rightarrow> None)
      else if 240 \<le> b0 \<and> b0 < 245 then
        (case bs of
           b1 # b2 # b3 # rest \<Rightarrow>
             if continuation b1 \<and> continuation b2 \<and> continuation b3
                \<and> (if b0 = 240 then 144 \<le> b1 else True)
                \<and> (if b0 = 244 then b1 < 144 else True)
             then map_option
                    ((#) ((b0 - 240) * 262144 + (b1 - 128) * 4096 + (b2 - 128) * 64 + (b3 - 128)))
                    (utf8_points rest)
             else None
         | _ \<Rightarrow> None)
      else None)"

definition utf8_decode :: "byte list \<Rightarrow> pystr option" where
  "utf8_decode bytes = utf8_points (map unat bytes)"

text \<open>
  \<open>tender_history\<close> is a dictionary from the identifier of a tender to its record: the
  list of its items in insertion order, read with \<open>map_of\<close>; a new key is appended. The
  history file \<open>data/tender_history.json\<close> is absent, or holds the whole text that
  \<open>_save_history\<close> wrote for a dictionary (which \<open>json.load\<close> reads back), or holds the
  beginning of such a text, cut where a write failed, or holds any other bytes. The file
  system is taken to do its part (no \<open>OSError\<close> on opening, reading or writing): the
  failures modelled are those of the codec and of the JSON parser. The file is opened
  with the encoding UTF-8, so the write of a text with a lone surrogate (a code point from
  D800 to DFFF, which \<open>json.loads\<close> and the HTML parser can both produce) raises
  \<open>UnicodeEncodeError\<close> and leaves the file cut before that text. The history in memory is
  a dictionary of records; a file whose text is JSON of another shape is outside the model.
\<close>

type_synonym history = "(pystr \<times> tender) list"

datatype history_file = Absent | Raw "byte list" | Stored history | Cut

text \<open>
  The UTF-8 codec cannot encode a lone surrogate (U+D800 to U+DFFF), which a Python
  \<open>str\<close> can hold. \<open>json.dump\<close> with \<open>ensure_ascii=False\<close> writes every key and every
  value as it is, so the text of a dictionary can be written when none of them holds
  one.
\<close>

definition has_surrogate :: "pystr \<Rightarrow> bool" where
  "has_surrogate text = list_ex (\<lambda>c. 55296 \<le> c \<and> c \<le> 57343) text"

definition tender_encodable :: "tender \<Rightarrow> bool" where
  "tender_encodable t =
     list_all (\<lambda>text. \<not> has_surrogate text)
       [tender_id t, title t, organization t, transmission t, tender_method t,
        tender_type t, announcement_date t, deadline t, budget t, link t, found_date t]"

definition encodable :: "history \<Rightarrow> bool" where
  "encodable h = list_all (\<lambda>(k, t). \<not> has_surrogate k \<and> tender_encodable t) h"

datatype call = Push_message pystr pystr | Broadcast pystr

text \<open>
  The effects of the program, oldest first: complete writes of the history file (with
  the dictionary written), writes of the history file that failed and left it cut, writes
  of the debug copy of the response and of the last-run file, log records of level
  warning or error, and calls of the messaging API.
\<close>

datatype event =
    History_saved history
  | History_cut
  | Debug_saved
  | Last_run_saved
  | Logged level
  | Called call

record state =
  tender_history :: history
  history_file :: history_file
  trace :: "event list"

datatype exn = UnicodeDecodeError | UnicodeEncodeError | ConnectionError

definition emit :: "event \<Rightarrow> state \<Rightarrow> state" where
  "emit e s = s\<lparr>trace := trace s @ [e]\<rparr>"

text \<open>
  \<open>_load_history\<close>. The parameter \<open>json_loads\<close> is the JSON parser on the decoded text
  of the file: the mapping it returns, or \<open>None\<close> where \<open>json.load\<close> raises
  \<open>JSONDecodeError\<close> (a JSON text that is not an object of records is outside this
  model). A cut file is valid UTF-8 and begins with an open brace that nothing closes,
  so \<open>json.load\<close> raises \<open>JSONDecodeError\<close> on it. Only \<open>json.JSONDecodeError\<close> is
  caught; any other exception leaves the function.
\<close>

definition load_history ::
    "(pystr \<Rightarrow> history option) \<Rightarrow> state \<Rightarrow> exn \<times> state + history \<times> state" where
  "load_history json_loads s =
     (case history_file s of
        Absent \<Rightarrow> Inr ([], s)
      | Stored h \<Rightarrow> Inr (h, s)
      | Cut \<Rightarrow> Inr ([], emit (Logged ERROR) s)
      | Raw bytes \<Rightarrow>
          (case utf8_decode bytes of
             None \<Rightarrow> Inl (UnicodeDecodeError, s)
           | Some text \<Rightarrow>
               (case json_loads text of
                  None \<Rightarrow> Inr ([], emit (Logged ERROR) s)
                | Some h \<Rightarrow> Inr (h, s))))"

text \<open>\<open>PCCWebScraper.__init__\<close>: \<open>self.tender_history = self._load_history()\<close>.\<close>

definition init_scraper ::
    "(pystr \<Rightarrow> history option) \<Rightarrow> state \<Rightarrow> exn \<times> state + state" where
  "init_scraper json_loads s =
     (case load_history json_loads s of
        Inl x \<Rightarrow> Inl x
      | Inr (h, s1) \<Rightarrow> Inr (s1\<lparr>tender_history := h\<rparr>))"

text \<open>
  \<open>_save_history\<close>: the file is opened for writing, which empties it, and \<open>json.dump\<close>
  writes the text of the dictionary piece by piece. When every piece can be encoded the
  whole dictionary replaces the content of the file. Otherwise the write of the first
  piece with a lone surrogate raises \<open>UnicodeEncodeError\<close>, and closing the file leaves
  the pieces written before it.
\<close>

definition save_history :: "state \<Rightarrow> exn \<times> state + state" where
  "save_history s =
     (if encodable (tender_history s)
      then Inr (emit (History_saved (tender_history s))
                  (s\<lparr>history_file := Stored (tender_history s)\<rparr>))
      else Inl (UnicodeEncodeError, emit History_cut (s\<lparr>history_file := Cut\<rparr>)))"

text \<open>
  The loop of \<open>search_tenders\<close> over \<open>data_rows\<close>: each row is parsed, and a parsed tender
  whose identifier is not a key of \<open>tender_history\<close> is appended to \<open>new_tenders\<close> and
  stored under its identifier.
\<close>

fun classify :: "pystr \<Rightarrow> row list \<Rightarrow> tender list \<Rightarrow> state \<Rightarrow> tender list \<times> state" where
  "classify now [] new_tenders s = (new_tenders, s)"
| "classify now (row # rows) new_tenders s =
     (case parse_tender_row now row of
        Inl lv \<Rightarrow> classify now rows new_tenders (emit (Logged lv) s)
      | Inr tender \<Rightarrow>
          if map_of (tender_history s) (tender_id tender) = None
          then classify now rows (new_tenders @ [tender])
                 (s\<lparr>tender_history := tender_history s @ [(tender_id tender, tender)]\<rparr>)
          else classify now rows new_tenders s)"

text \<open>
  \<open>search_tenders\<close>. The argument \<open>response\<close> is the outcome of the GET request for the
  URL built from the keywords and \<open>months_ago\<close>; \<open>now\<close> is the clock reading of the
  invocation, taken as one reading for all its rows. Both \<open>requests.get\<close> raising and
  \<open>raise_for_status\<close> raising end in the \<open>except requests.RequestException\<close> branch,
  which catches nothing else: an exception of \<open>_save_history\<close> leaves the function.
\<close>

definition search_tenders ::
    "bool \<Rightarrow> fetch \<Rightarrow> pystr \<Rightarrow> state \<Rightarrow> exn \<times> state + tender list \<times> state" where
  "search_tenders debug response now s =
     (case response of
        Request_exception \<Rightarrow> Inr ([], emit (Logged ERROR) s)
      | Response status_code page \<Rightarrow>
          if raise_for_status status_code then Inr ([], emit (Logged ERROR) s)
          else
            let s1 = (if debug then emit Debug_saved s else s) in
            (case page of
               None \<Rightarrow> Inr ([], s1)
             | Some tender_rows \<Rightarrow>
                 let rows = data_rows tender_rows in
                 if rows = [] then Inr ([], s1)
                 else
                   let (new_tenders, s2) = classify now rows [] s1
                   in (case save_history s2 of
                         Inl x \<Rightarrow> Inl x
                       | Inr s3 \<Rightarrow> Inr (new_tenders, s3))))"


section \<open>The notifier\<close>

text \<open>
  The notifier reads a tender through \<open>dict.get\<close>, so here a tender is a dictionary
  from key to text. \<open>as_dict\<close> is the dictionary of a record of the scraper.
\<close>

type_synonym tender_dict = "pystr \<rightharpoonup> pystr"

definition as_dict :: "tender \<Rightarrow> tender_dict" where
  "as_dict t =
     [ascii ''id'' \<mapsto> tender_id t,
      ascii ''title'' \<mapsto> title t,
      ascii ''organization'' \<mapsto> organization t,
      ascii ''transmission'' \<mapsto> transmission t,
      ascii ''tender_method'' \<mapsto> tender_method t,
      ascii ''tender_type'' \<mapsto> tender_type t,
      ascii ''announcement_date'' \<mapsto> announcement_date t,
      ascii ''deadline'' \<mapsto> deadline t,
      ascii ''budget'' \<mapsto> budget t,
      ascii ''link'' \<mapsto> link t,
      ascii ''found_date'' \<mapsto> found_date t]"

text \<open>\<open>d.get(k, default)\<close>.\<close>

definition dict_get :: "tender_dict \<Rightarrow> pystr \<Rightarrow> pystr \<Rightarrow> pystr" where
  "dict_get d k dflt = (case d k of None \<Rightarrow> dflt | Some v \<Rightarrow> v)"

text \<open>
  The literals of the message templates, as code points: a bell, "new tender
  announcement", and the labels "tender number", "tender name", "tendering agency",
  "announcement date" and "details", each after a pictograph.
\<close>

definition msg_header :: pystr where
  "msg_header = [128276, 32, 26032, 25307, 27161, 20844, 21578, 36890, 30693, 32, 128276, 10, 10]"

definition label_id :: pystr where
  "label_id = [128203, 32, 27161, 26696, 32232, 34399, 58, 32]"

definition label_title :: pystr where
  "label_title = [128221, 32, 27161, 26696, 21517, 31281, 58, 32]"

definition label_organization :: pystr where
  "label_organization = [127970, 32, 25307, 27161, 27231, 38364, 58, 32]"

definition label_date :: pystr where
  "label_date = [128197, 32, 20844, 21578, 26085, 26399, 58, 32]"

definition label_link :: pystr where
  "label_link = [10, 128279, 32, 35443, 32048, 36039, 35338, 58, 32]"

definition msg_footer :: pystr where
  "msg_footer =
     [10, 27492, 36890, 30693, 30001, 33258, 21205, 30435, 25511, 31995, 32113, 30332, 36865,
      12290]"

definition summary_found :: pystr where
  "summary_found = [128276, 32, 30332, 29694, 32]"

definition summary_keywords :: pystr where
  "summary_keywords =
     [32, 20491, 26032, 25307, 27161, 20844, 21578, 31526, 21512, 24744, 30340, 38364, 37749,
      23383, 32, 40, 39, 20132, 36890, 23616, 39, 32, 21644, 32, 39, 27700, 28275, 39, 41, 10,
      10]"

definition summary_list :: pystr where
  "summary_list = [20197, 19979, 26159, 27161, 26696, 28165, 21934, 58, 10]"

definition summary_footer :: pystr where
  "summary_footer =
     [10, 35443, 32048, 36039, 35338, 23559, 22312, 24460, 32396, 35338, 24687, 20013, 30332,
      36865, 12290]"

text \<open>
  \<open>format_tender_notification\<close>. The link line is added under \<open>if tender.get('link')\<close>:
  when the key is present with a non-empty value.
\<close>

definition format_tender_notification :: "tender_dict \<Rightarrow> pystr" where
  "format_tender_notification tender =
     msg_header
     @ label_id @ dict_get tender (ascii ''id'') (ascii ''N/A'') @ [10]
     @ label_title @ dict_get tender (ascii ''title'') (ascii ''N/A'') @ [10]
     @ label_organization @ dict_get tender (ascii ''organization'') (ascii ''N/A'') @ [10]
     @ label_date @ dict_get tender (ascii ''date'') (ascii ''N/A'') @ [10]
     @ (case tender (ascii ''link'') of
          None \<Rightarrow> []
        | Some l \<Rightarrow> if l \<noteq> [] then label_link @ l @ [10] else [])
     @ msg_footer"

text \<open>
  The messaging API. A call either delivers, or raises \<open>LineBotApiError\<close>, or raises
  another exception (the HTTP client under the API raises its own on a lost connection).
  The answer may depend on the call and on everything that happened before it.
\<close>

datatype channel_result = Delivered | LineBotApiError | Raised exn

type_synonym channel = "event list \<Rightarrow> call \<Rightarrow> channel_result"

text \<open>
  \<open>send_message\<close>: \<open>push_message\<close> when \<open>self.user_id\<close> is set and not empty,
  \<open>broadcast\<close> otherwise; \<open>except LineBotApiError\<close> logs and returns \<open>False\<close>.
\<close>

definition api_call :: "pystr option \<Rightarrow> pystr \<Rightarrow> call" where
  "api_call user_id message =
     (case user_id of
        None \<Rightarrow> Broadcast message
      | Some u \<Rightarrow> if u \<noteq> [] then Push_message u message else Broadcast message)"

definition send_message ::
    "channel \<Rightarrow> pystr option \<Rightarrow> pystr \<Rightarrow> state \<Rightarrow> exn \<times> state + bool \<times> state" where
  "send_message chan user_id message s =
     (let c = api_call user_id message;
          s1 = emit (Called c) s
      in case chan (trace s) c of
           Delivered \<Rightarrow> Inr (True, s1)
         | LineBotApiError \<Rightarrow> Inr (False, emit (Logged ERROR) s1)
         | Raised e \<Rightarrow> Inl (e, s1))"

definition send_tender_notification ::
    "channel \<Rightarrow> pystr option \<Rightarrow> tender_dict \<Rightarrow> state \<Rightarrow> exn \<times> state + bool \<times> state" where
  "send_tender_notification chan user_id tender s =
     send_message chan user_id (format_tender_notification tender) s"

text \<open>The numbered titles of the summary: \<open>for i, tender in enumerate(tenders, 1)\<close>.\<close>

fun summary_titles :: "nat \<Rightarrow> tender_dict list \<Rightarrow> pystr" where
  "summary_titles i [] = []"
| "summary_titles i (tender # tenders) =
     str_nat i @ ascii ''. '' @ dict_get tender (ascii ''title'') (ascii ''N/A'') @ [10]
     @ summary_titles (i + 1) tenders"

definition summary_message :: "tender_dict list \<Rightarrow> pystr" where
  "summary_message tenders =
     summary_found @ str_nat (length tenders) @ summary_keywords @ summary_list
     @ summary_titles 1 tenders @ summary_footer"

text \<open>
  The loop \<open>for tender in tenders: self.send_tender_notification(tender)\<close>, whose
  results are dropped.
\<close>

fun send_each ::
    "channel \<Rightarrow> pystr option \<Rightarrow> tender_dict list \<Rightarrow> state \<Rightarrow> exn \<times> state + state" where
  "send_each chan user_id [] s = Inr s"
| "send_each chan user_id (tender # tenders) s =
     (case send_tender_notification chan user_id tender s of
        Inl x \<Rightarrow> Inl x
      | Inr (_, s1) \<Rightarrow> send_each chan user_id tenders s1)"

definition send_multiple_tenders_notification ::
    "channel \<Rightarrow> pystr option \<Rightarrow> tender_dict list \<Rightarrow> state \<Rightarrow> exn \<times> state + bool \<times> state" where
  "send_multiple_tenders_notification chan user_id tenders s =
     (if tenders = [] then Inr (True, s)
      else if length tenders = 1 then send_tender_notification chan user_id (tenders ! 0) s
      else
        (case send_message chan user_id (summary_message tenders) s of
           Inl x \<Rightarrow> Inl x
         | Inr (success, s1) \<Rightarrow>
             (case send_each chan user_id tenders s1 of
                Inl x \<Rightarrow> Inl x
              | Inr s2 \<Rightarrow> Inr (success, s2))))"


section \<open>The monitoring job\<close>

text \<open>
  \<open>MonitoringSystem.run_monitoring_job\<close>, with the scraper above and a notifier built
  without a user id. Whatever is raised inside the job is caught and logged by its
  \<open>except Exception\<close>; the last-run file is written when nothing was raised.
\<close>

definition run_monitoring_job :: "channel \<Rightarrow> fetch \<Rightarrow> pystr \<Rightarrow> state \<Rightarrow> state" where
  "run_monitoring_job chan response now s =
     (case search_tenders False response now s of
        Inl (e, s1) \<Rightarrow> emit (Logged ERROR) s1
      | Inr (new_tenders, s1) \<Rightarrow>
          if new_tenders \<noteq> [] then
            (case send_multiple_tenders_notification chan None (map as_dict new_tenders) s1 of
               Inl (e, s2) \<Rightarrow> emit (Logged ERROR) s2
             | Inr (notification_success, s2) \<Rightarrow>
                 emit Last_run_saved
                   (if notification_success then s2 else emit (Logged ERROR) s2))
          else emit Last_run_saved s1)"



section \<open>Notions used in the statements\<close>

text \<open>
  The integer pattern in words: one or more decimal digits and nothing else. A row
  qualifies when it has at least 9 cells and the stripped text of its first cell is such
  a text.
\<close>

definition integer_pattern :: "pystr \<Rightarrow> bool" where
  "integer_pattern s = (s \<noteq> [] \<and> list_all py_isdecimal s)"

definition qualifies :: "row \<Rightarrow> bool" where
  "qualifies cells = (9 \<le> length cells \<and> integer_pattern (strip (cell_text (cells ! 0))))"

text \<open>
  The batch of parsed records: the values that the variable \<open>tender\<close> takes in the
  loop of \<open>search_tenders\<close>, in order.
\<close>

fun parsed :: "pystr \<Rightarrow> row list \<Rightarrow> tender list" where
  "parsed now [] = []"
| "parsed now (row # rows) =
     (case parse_tender_row now row of
        Inl _ \<Rightarrow> parsed now rows
      | Inr tender \<Rightarrow> tender # parsed now rows)"

text \<open>
  What an invocation of \<open>search_tenders\<close> hands to its caller, nothing when it raises,
  and the state it leaves.
\<close>

definition new_tenders_of :: "exn \<times> state + tender list \<times> state \<Rightarrow> tender list" where
  "new_tenders_of r = (case r of Inl x \<Rightarrow> [] | Inr (new_tenders, s) \<Rightarrow> new_tenders)"

definition state_of :: "exn \<times> state + tender list \<times> state \<Rightarrow> state" where
  "state_of r = (case r of Inl (e, s) \<Rightarrow> s | Inr (new_tenders, s) \<Rightarrow> s)"

text \<open>The items that a list of records adds to the dictionary.\<close>

definition items_of :: "tender list \<Rightarrow> history" where
  "items_of ts = map (\<lambda>t. (tender_id t, t)) ts"

text \<open>The calls of the messaging API in a trace, in order.\<close>

fun calls :: "event list \<Rightarrow> call list" where
  "calls [] = []"
| "calls (Called c # es) = c # calls es"
| "calls (_ # es) = calls es"

text \<open>
  The identifiers that a response brings to the classification; they do not depend on
  the clock.
\<close>

definition batch_ids :: "fetch \<Rightarrow> pystr set" where
  "batch_ids response =
     (case response of
        Request_exception \<Rightarrow> {}
      | Response status_code page \<Rightarrow>
          (case page of
             None \<Rightarrow> {}
           | Some tender_rows \<Rightarrow>
               if raise_for_status status_code then {}
               else tender_id ` set (parsed [] (data_rows tender_rows))))"

text \<open>The state after the debug copy of the response was written, if asked for.\<close>

definition debug_copy :: "bool \<Rightarrow> state \<Rightarrow> state" where
  "debug_copy debug s = (if debug then emit Debug_saved s else s)"

text \<open>The history, in memory and in the file, is the same in both states.\<close>

definition kept :: "state \<Rightarrow> state \<Rightarrow> bool" where
  "kept s s' = (tender_history s' = tender_history s \<and> history_file s' = history_file s)"

text \<open>
  The fetch fails: \<open>requests.get\<close> raises, or the status is one for which
  \<open>raise_for_status\<close> raises.
\<close>

definition fetch_fails :: "fetch \<Rightarrow> bool" where
  "fetch_fails response =
     (case response of
        Request_exception \<Rightarrow> True
      | Response status_code page \<Rightarrow> 400 \<le> status_code \<and> status_code < 600)"

text \<open>
  Example data: a row of nine cells with an item number, an identifier and the anchors
  of its third cell; the record that \<open>_parse_tender_row\<close> makes of it; and the state of
  a first start, with no history.
\<close>

definition text_cell :: "string \<Rightarrow> cell" where
  "text_cell s = \<lparr>strings = [ascii s], anchors = []\<rparr>"

definition example_row :: "string \<Rightarrow> string \<Rightarrow> pystr option list \<Rightarrow> row" where
  "example_row item ident hrefs =
     [text_cell item, text_cell ''Org'',
      \<lparr>strings = [ascii ident, ascii ''Title''], anchors = hrefs\<rparr>,
      text_cell ''T'', text_cell ''M'', text_cell ''K'',
      text_cell ''113/04/02'', text_cell ''113/05/02'', text_cell ''1000'']"

definition example_tender :: "string \<Rightarrow> pystr \<Rightarrow> pystr \<Rightarrow> tender" where
  "example_tender ident l now =
     \<lparr>tender_id = ascii ident, title = ascii ''Title'', organization = ascii ''Org'',
      transmission = ascii ''T'', tender_method = ascii ''M'', tender_type = ascii ''K'',
      announcement_date = ascii ''113/04/02'', deadline = ascii ''113/05/02'',
      budget = ascii ''1000'', link = l, found_date = now\<rparr>"

definition empty_state :: state where
  "empty_state = \<lparr>tender_history = [], history_file = Absent, trace = []\<rparr>"

text \<open>A record of the notifier's own test, without link, deadline and budget.\<close>

definition example_dict :: "string \<Rightarrow> tender_dict" where
  "example_dict ident =
     [ascii ''id'' \<mapsto> ascii ident,
      ascii ''title'' \<mapsto> ascii ''Title'',
      ascii ''organization'' \<mapsto> ascii ''Org'',
      ascii ''date'' \<mapsto> ascii ''113/04/02'',
      ascii ''found_date'' \<mapsto> ascii ''2025-04-02 05:49:00'']"

text \<open>\<open>sub in s\<close>: the text \<open>sub\<close> occurs in \<open>s\<close>.\<close>

fun contains :: "pystr \<Rightarrow> pystr \<Rightarrow> bool" where
  "contains sub [] = (sub = [])"
| "contains sub (c # s) = (take (length sub) (c # s) = sub \<or> contains sub s)"

text \<open>A channel that loses the connection at the second call.\<close>

definition drops_second_call :: channel where
  "drops_second_call tr c = (if length (calls tr) = 1 then Raised ConnectionError else Delivered)"

text \<open>A channel that loses the connection at the third call.\<close>

definition drops_third_call :: channel where
  "drops_third_call tr c = (if length (calls tr) = 2 then Raised ConnectionError else Delivered)"

text \<open>
  A row whose title cell holds a lone surrogate, as the numeric character reference
  D800 gives it.
\<close>

definition surrogate_row :: row where
  "surrogate_row =
     [text_cell ''1'', text_cell ''Org'',
      \<lparr>strings = [ascii ''A009'', [55296]], anchors = []\<rparr>,
      text_cell ''T'', text_cell ''M'', text_cell ''K'',
      text_cell ''113/04/02'', text_cell ''113/05/02'', text_cell ''1000'']"



section \<open>Auxiliary facts\<close>

lemma strip_last_not_space: "strip s \<noteq> [] \<Longrightarrow> \<not> py_isspace (last (strip s))"
  unfolding strip_def
  by (simp add: last_rev hd_dropWhile)

lemma re_match_digits_strip: "re_match_digits (strip s) = integer_pattern (strip s)"
proof (cases "strip s = []")
  case True
  then show ?thesis by (simp add: re_match_digits_def integer_pattern_def)
next
  case False
  then have "\<not> py_isspace (last (strip s))" by (rule strip_last_not_space)
  moreover have "py_isspace 10" by (simp add: py_isspace_def)
  ultimately have "last (strip s) \<noteq> 10" by metis
  then show ?thesis by (simp add: re_match_digits_def integer_pattern_def Let_def)
qed

lemma data_rows_filter: "data_rows tender_rows = filter qualifies tender_rows"
  by (induction tender_rows) (auto simp: qualifies_def re_match_digits_strip)

lemma data_rows_length: "cells \<in> set (data_rows tender_rows) \<Longrightarrow> 9 \<le> length cells"
  by (simp add: data_rows_filter qualifies_def)

lemma parse_Inr: "9 \<le> length cells \<Longrightarrow> \<exists>t. parse_tender_row now cells = Inr t"
  by (simp add: parse_tender_row_def Let_def)

lemma parse_Inl: "length cells < 9 \<Longrightarrow> parse_tender_row now cells = Inl WARNING"
  by (simp add: parse_tender_row_def)

lemma parsed_all2:
  "\<forall>cells \<in> set rows. 9 \<le> length cells \<Longrightarrow>
   list_all2 (\<lambda>cells t. parse_tender_row now cells = Inr t) rows (parsed now rows)"
proof (induction rows)
  case Nil
  then show ?case by simp
next
  case (Cons r rows)
  then obtain t where "parse_tender_row now r = Inr t" using parse_Inr[of r now] by auto
  with Cons show ?case by simp
qed

lemma emit_simps [simp]:
  "tender_history (emit e s) = tender_history s"
  "history_file (emit e s) = history_file s"
  "trace (emit e s) = trace s @ [e]"
  by (simp_all add: emit_def)

lemma filter_enumerate_Suc:
  "map snd (filter P (enumerate (Suc n) xs)) = map snd (filter (\<lambda>(i, x). P (Suc i, x)) (enumerate n xs))"
  by (simp add: enumerate_Suc_eq filter_map o_def split_def apfst_def map_prod_def)

lemma map_of_snoc:
  "map_of h k = None \<Longrightarrow> map_of (h @ [(k, t)]) = (map_of h)(k \<mapsto> t)"
  by (rule ext) (simp add: map_add_def split: option.splits)

lemma classify_new:
  "fst (classify now rows acc s) =
     acc @ map snd (filter (\<lambda>(i, t). tender_id t \<notin> dom (map_of (tender_history s)) \<union> tender_id ` set (take i (parsed now rows)))
                     (enumerate 0 (parsed now rows)))"
proof (induction rows arbitrary: acc s)
  case Nil
  then show ?case by simp
next
  case (Cons row rows)
  show ?case
  proof (cases "parse_tender_row now row")
    case (Inl lv)
    then show ?thesis using Cons.IH[of acc "emit (Logged lv) s"] by simp
  next
    case (Inr t)
    show ?thesis
    proof (cases "map_of (tender_history s) (tender_id t)")
      case None
      then show ?thesis
        using Inr Cons.IH[of "acc @ [t]" "s\<lparr>tender_history := tender_history s @ [(tender_id t, t)]\<rparr>"]
        by (simp add: filter_enumerate_Suc domIff map_of_snoc del: map_of_append)
           (auto intro!: arg_cong[where f="map snd"] filter_cong)
    next
      case (Some v)
      then have "insert (tender_id t) (dom (map_of (tender_history s))) = dom (map_of (tender_history s))"
        by auto
      then show ?thesis
        using Inr Some Cons.IH[of acc s]
        by (simp add: filter_enumerate_Suc domIff)
           (auto intro!: arg_cong[where f="map snd"] filter_cong)
    qed
  qed
qed

lemma classify_history:
  "map_of (tender_history (snd (classify now rows acc s))) k =
     (case map_of (tender_history s) k of
        Some v \<Rightarrow> Some v
      | None \<Rightarrow> find (\<lambda>t. tender_id t = k) (parsed now rows))"
proof (induction rows arbitrary: acc s)
  case Nil
  then show ?case by (simp split: option.splits)
next
  case (Cons row rows)
  show ?case
  proof (cases "parse_tender_row now row")
    case (Inl lv)
    then show ?thesis using Cons.IH[of acc "emit (Logged lv) s"] by (simp split: option.splits)
  next
    case (Inr t)
    show ?thesis
    proof (cases "map_of (tender_history s) (tender_id t)")
      case None
      then show ?thesis
        using Inr Cons.IH[of "acc @ [t]" "s\<lparr>tender_history := tender_history s @ [(tender_id t, t)]\<rparr>"]
        by (auto simp add: map_of_snoc simp del: map_of_append split: option.splits)
    next
      case (Some v)
      then show ?thesis
        using Inr Cons.IH[of acc s] by (auto split: option.splits)
    qed
  qed
qed

lemma classify_count:
  "length (filter (\<lambda>t. tender_id t = k) (fst (classify now rows acc s))) =
     length (filter (\<lambda>t. tender_id t = k) acc) +
     (if map_of (tender_history s) k = None \<and> k \<in> tender_id ` set (parsed now rows) then 1 else 0)"
proof (induction rows arbitrary: acc s)
  case Nil
  then show ?case by simp
next
  case (Cons row rows)
  show ?case
  proof (cases "parse_tender_row now row")
    case (Inl lv)
    then show ?thesis using Cons.IH[of acc "emit (Logged lv) s"] by simp
  next
    case (Inr t)
    show ?thesis
    proof (cases "map_of (tender_history s) (tender_id t)")
      case None
      then show ?thesis
        using Inr Cons.IH[of "acc @ [t]" "s\<lparr>tender_history := tender_history s @ [(tender_id t, t)]\<rparr>"]
        by (auto simp add: map_of_snoc simp del: map_of_append)
    next
      case (Some v)
      then show ?thesis
        using Inr Cons.IH[of acc s] by auto
    qed
  qed
qed

lemma classify_appends:
  "\<exists>new. fst (classify now rows acc s) = acc @ new \<and>
         tender_history (snd (classify now rows acc s)) = tender_history s @ items_of new \<and>
         set new \<subseteq> set (parsed now rows)"
proof (induction rows arbitrary: acc s)
  case Nil
  then show ?case by (simp add: items_of_def)
next
  case (Cons row rows)
  show ?case
  proof (cases "parse_tender_row now row")
    case (Inl lv)
    then show ?thesis using Cons.IH[of acc "emit (Logged lv) s"] by simp
  next
    case (Inr t)
    show ?thesis
    proof (cases "map_of (tender_history s) (tender_id t)")
      case None
      obtain new where
        n: "fst (classify now rows (acc @ [t])
               (s\<lparr>tender_history := tender_history s @ [(tender_id t, t)]\<rparr>)) = (acc @ [t]) @ new"
           "tender_history (snd (classify now rows (acc @ [t])
               (s\<lparr>tender_history := tender_history s @ [(tender_id t, t)]\<rparr>)))
              = (tender_history s @ [(tender_id t, t)]) @ items_of new"
           "set new \<subseteq> set (parsed now rows)"
        using Cons.IH[of "acc @ [t]" "s\<lparr>tender_history := tender_history s @ [(tender_id t, t)]\<rparr>"]
        by auto
      have "fst (classify now (row # rows) acc s) = acc @ (t # new)"
        and "tender_history (snd (classify now (row # rows) acc s))
               = tender_history s @ items_of (t # new)"
        and "set (t # new) \<subseteq> set (parsed now (row # rows))"
        using n Inr None by (auto simp: items_of_def)
      then show ?thesis by blast
    next
      case (Some v)
      then show ?thesis using Inr Cons.IH[of acc s] by auto
    qed
  qed
qed

lemma classify_items:
  "tender_history (snd (classify now rows [] s)) =
     tender_history s @ items_of (fst (classify now rows [] s))"
  using classify_appends[of now rows "[]" s] by auto

lemma calls_append [simp]: "calls (xs @ ys) = calls xs @ calls ys"
  by (induction xs rule: calls.induct) simp_all

lemma classify_quiet:
  "\<forall>cells \<in> set rows. 9 \<le> length cells \<Longrightarrow>
   trace (snd (classify now rows acc s)) = trace s \<and>
   history_file (snd (classify now rows acc s)) = history_file s"
proof (induction rows arbitrary: acc s)
  case Nil
  then show ?case by simp
next
  case (Cons row rows)
  then obtain t where t: "parse_tender_row now row = Inr t"
    using parse_Inr[of row now] by auto
  from Cons.prems have rest: "\<forall>cells \<in> set rows. 9 \<le> length cells" by simp
  show ?case
    using t Cons.IH[OF rest, of "acc @ [t]" "s\<lparr>tender_history := tender_history s @ [(tender_id t, t)]\<rparr>"]
          Cons.IH[OF rest, of acc s]
    by simp
qed

lemma classify_calls:
  "calls (trace (snd (classify now rows acc s))) = calls (trace s)"
proof (induction rows arbitrary: acc s)
  case Nil
  then show ?case by simp
next
  case (Cons row rows)
  show ?case
  proof (cases "parse_tender_row now row")
    case (Inl lv)
    then show ?thesis using Cons.IH[of acc "emit (Logged lv) s"] by simp
  next
    case (Inr t)
    then show ?thesis
      using Cons.IH[of "acc @ [t]" "s\<lparr>tender_history := tender_history s @ [(tender_id t, t)]\<rparr>"]
            Cons.IH[of acc s]
      by simp
  qed
qed

lemma parse_id_now:
  "parse_tender_row now1 cells = Inr t1 \<Longrightarrow>
   \<exists>t2. parse_tender_row now2 cells = Inr t2 \<and> tender_id t2 = tender_id t1"
  by (auto simp: parse_tender_row_def Let_def split: if_splits)

lemma parse_Inl_now:
  "parse_tender_row now1 cells = Inl lv \<Longrightarrow> parse_tender_row now2 cells = Inl lv"
  by (auto simp: parse_tender_row_def Let_def split: if_splits)

lemma parsed_ids_now: "map tender_id (parsed now1 rows) = map tender_id (parsed now2 rows)"
proof (induction rows)
  case Nil
  then show ?case by simp
next
  case (Cons row rows)
  show ?case
  proof (cases "parse_tender_row now1 row")
    case (Inl lv)
    then show ?thesis using Cons parse_Inl_now[OF Inl, of now2] by simp
  next
    case (Inr t1)
    then obtain t2 where "parse_tender_row now2 row = Inr t2" "tender_id t2 = tender_id t1"
      using parse_id_now by blast
    then show ?thesis using Cons Inr by simp
  qed
qed

lemma classify_covers:
  "t \<in> set (parsed now rows) \<Longrightarrow>
   map_of (tender_history (snd (classify now rows acc s))) (tender_id t) \<noteq> None"
proof -
  assume t: "t \<in> set (parsed now rows)"
  then have "find (\<lambda>x. tender_id x = tender_id t) (parsed now rows) \<noteq> None"
    by (auto simp: find_None_iff)
  then show ?thesis by (simp add: classify_history split: option.splits)
qed

lemma classify_seen:
  assumes "\<forall>t \<in> set (parsed now rows). map_of (tender_history s) (tender_id t) \<noteq> None"
  shows "fst (classify now rows acc s) = acc"
    and "tender_history (snd (classify now rows acc s)) = tender_history s"
proof -
  have "filter (\<lambda>(i, t). tender_id t \<notin> dom (map_of (tender_history s)) \<union> tender_id ` set (take i (parsed now rows)))
          (enumerate 0 (parsed now rows)) = []"
    using assms by (auto simp: filter_empty_conv in_set_enumerate_eq domIff) (metis nth_mem option.distinct(1))
  then show a: "fst (classify now rows acc s) = acc" by (simp add: classify_new)
  obtain new where "fst (classify now rows acc s) = acc @ new"
    "tender_history (snd (classify now rows acc s)) = tender_history s @ items_of new"
    using classify_appends[of now rows acc s] by blast
  with a show "tender_history (snd (classify now rows acc s)) = tender_history s"
    by (simp add: items_of_def)
qed

lemma parsed_ids_set: "tender_id ` set (parsed now rows) = tender_id ` set (parsed [] rows)"
  using parsed_ids_now[of now rows "[]"] by (metis set_map)

lemma encodable_append [simp]: "encodable (h @ h') = (encodable h \<and> encodable h')"
  by (simp add: encodable_def)

lemma tender_encodable_id: "tender_encodable t \<Longrightarrow> \<not> has_surrogate (tender_id t)"
  by (simp add: tender_encodable_def)

lemma encodable_items: "list_all tender_encodable ts \<Longrightarrow> encodable (items_of ts)"
  by (induction ts) (simp_all add: encodable_def items_of_def tender_encodable_id)

lemma save_history_ok:
  "encodable (tender_history s) \<Longrightarrow>
     save_history s =
       Inr (emit (History_saved (tender_history s)) (s\<lparr>history_file := Stored (tender_history s)\<rparr>))"
  by (simp add: save_history_def)

lemma save_history_fails:
  "\<not> encodable (tender_history s) \<Longrightarrow>
     save_history s = Inl (UnicodeEncodeError, emit History_cut (s\<lparr>history_file := Cut\<rparr>))"
  by (simp add: save_history_def)

lemma saved_simps [simp]:
  "new_tenders_of (case save_history s of Inl x \<Rightarrow> Inl x | Inr s3 \<Rightarrow> Inr (new, s3)) =
     (if encodable (tender_history s) then new else [])"
  "tender_history (state_of (case save_history s of Inl x \<Rightarrow> Inl x | Inr s3 \<Rightarrow> Inr (new, s3))) =
     tender_history s"
  "calls (trace (state_of (case save_history s of Inl x \<Rightarrow> Inl x | Inr s3 \<Rightarrow> Inr (new, s3)))) =
     calls (trace s)"
  by (simp_all add: save_history_def new_tenders_of_def state_of_def)

lemma result_simps [simp]:
  "new_tenders_of (Inr (new, s)) = new" "new_tenders_of (Inl x) = []"
  "state_of (Inr (new, s)) = s" "state_of (Inl (e, s)) = s"
  by (simp_all add: new_tenders_of_def state_of_def)

lemma debug_copy_simps [simp]:
  "tender_history (debug_copy debug s) = tender_history s"
  "history_file (debug_copy debug s) = history_file s"
  "trace (debug_copy debug s) = trace s @ (if debug then [Debug_saved] else [])"
  by (simp_all add: debug_copy_def)

lemma search_failed:
  "search_tenders debug Request_exception now s = Inr ([], emit (Logged ERROR) s)"
  "raise_for_status st \<Longrightarrow>
     search_tenders debug (Response st page) now s = Inr ([], emit (Logged ERROR) s)"
  by (simp_all add: search_tenders_def)

lemma search_no_rows:
  "\<not> raise_for_status st \<Longrightarrow>
     search_tenders debug (Response st None) now s = Inr ([], debug_copy debug s)"
  "\<not> raise_for_status st \<Longrightarrow> data_rows tender_rows = [] \<Longrightarrow>
     search_tenders debug (Response st (Some tender_rows)) now s = Inr ([], debug_copy debug s)"
  by (simp_all add: search_tenders_def debug_copy_def)

lemma search_rows:
  "\<not> raise_for_status st \<Longrightarrow> data_rows tender_rows \<noteq> [] \<Longrightarrow>
     search_tenders debug (Response st (Some tender_rows)) now s =
       (case save_history (snd (classify now (data_rows tender_rows) [] (debug_copy debug s))) of
          Inl x \<Rightarrow> Inl x
        | Inr s3 \<Rightarrow> Inr (fst (classify now (data_rows tender_rows) [] (debug_copy debug s)), s3))"
  by (cases debug)
     (simp_all add: search_tenders_def debug_copy_def Let_def split_def cong: sum.case_cong)

lemma search_cases:
  obtains (failed) "search_tenders debug response now s = Inr ([], emit (Logged ERROR) s)"
                   "batch_ids response = {}"
  | (no_rows) "search_tenders debug response now s = Inr ([], debug_copy debug s)"
              "batch_ids response = {}"
  | (rows) st tender_rows where "response = Response st (Some tender_rows)"
      "\<not> raise_for_status st" "data_rows tender_rows \<noteq> []"
proof (cases response)
  case Request_exception
  then show ?thesis using failed by (simp add: search_failed batch_ids_def)
next
  case (Response st page)
  show ?thesis
  proof (cases "raise_for_status st")
    case True
    then show ?thesis using failed Response
      by (simp add: search_failed batch_ids_def split: option.splits)
  next
    case False
    show ?thesis
    proof (cases page)
      case None
      then show ?thesis using no_rows Response False by (simp add: search_no_rows batch_ids_def)
    next
      case (Some tender_rows)
      show ?thesis
      proof (cases "data_rows tender_rows = []")
        case True
        then show ?thesis using no_rows Response False Some
          by (simp add: search_no_rows batch_ids_def)
      next
        case nonempty: False
        then show ?thesis using rows Response False Some by simp
      qed
    qed
  qed
qed

lemma search_covers:
  "batch_ids response
     \<subseteq> dom (map_of (tender_history (state_of (search_tenders debug response now s))))"
proof (cases rule: search_cases[of debug response now s])
  case failed
  then show ?thesis by simp
next
  case no_rows
  then show ?thesis by simp
next
  case (rows st tender_rows)
  have ids: "batch_ids response = tender_id ` set (parsed now (data_rows tender_rows))"
    using rows by (simp add: batch_ids_def parsed_ids_set[of now])
  have "tender_id ` set (parsed now (data_rows tender_rows))
          \<subseteq> dom (map_of (tender_history (snd (classify now (data_rows tender_rows) [] (debug_copy debug s)))))"
    using classify_covers by (auto simp: domIff)
  then show ?thesis using rows ids by (simp add: search_rows del: dom_map_of_conv_image_fst)
qed

lemma search_seen:
  assumes "batch_ids response \<subseteq> dom (map_of (tender_history s))"
  shows "new_tenders_of (search_tenders debug response now s) = [] \<and>
         tender_history (state_of (search_tenders debug response now s)) = tender_history s"
proof (cases rule: search_cases[of debug response now s])
  case failed
  then show ?thesis by simp
next
  case no_rows
  then show ?thesis by simp
next
  case (rows st tender_rows)
  have ids: "batch_ids response = tender_id ` set (parsed now (data_rows tender_rows))"
    using rows by (simp add: batch_ids_def parsed_ids_set[of now])
  have "\<forall>t \<in> set (parsed now (data_rows tender_rows)).
          map_of (tender_history (debug_copy debug s)) (tender_id t) \<noteq> None"
    using assms ids by (auto simp: domIff simp del: dom_map_of_conv_image_fst)
  then have "fst (classify now (data_rows tender_rows) [] (debug_copy debug s)) = [] \<and>
             tender_history (snd (classify now (data_rows tender_rows) [] (debug_copy debug s)))
               = tender_history (debug_copy debug s)"
    using classify_seen by blast
  then show ?thesis using rows by (simp add: search_rows)
qed

lemma search_calls:
  "calls (trace (state_of (search_tenders debug response now s))) = calls (trace s)"
proof (cases rule: search_cases[of debug response now s])
  case failed
  then show ?thesis by simp
next
  case no_rows
  then show ?thesis by simp
next
  case (rows st tender_rows)
  then show ?thesis by (simp add: search_rows classify_calls)
qed

lemma kept_refl [simp]: "kept s s"
  by (simp add: kept_def)

lemma kept_trans: "kept s s1 \<Longrightarrow> kept s1 s2 \<Longrightarrow> kept s s2"
  by (simp add: kept_def)

lemma kept_emit [simp]: "kept s (emit e s)"
  by (simp add: kept_def)

lemma send_message_keeps:
  "case send_message chan user_id message s of Inl (e, s') \<Rightarrow> kept s s' | Inr (b, s') \<Rightarrow> kept s s'"
  by (simp add: send_message_def Let_def kept_def split: channel_result.splits)

lemma send_each_keeps:
  "case send_each chan user_id tenders s of Inl (e, s') \<Rightarrow> kept s s' | Inr s' \<Rightarrow> kept s s'"
proof (induction tenders arbitrary: s)
  case Nil
  then show ?case by simp
next
  case (Cons t ts)
  show ?case
  proof (cases "send_message chan user_id (format_tender_notification t) s")
    case (Inl x)
    then show ?thesis
      using send_message_keeps[where chan=chan and user_id=user_id and message="format_tender_notification t" and s=s]
      by (simp add: send_tender_notification_def split: prod.splits)
  next
    case (Inr y)
    obtain b s1 where y: "y = (b, s1)" by (cases y)
    have k1: "kept s s1"
      using send_message_keeps[where chan=chan and user_id=user_id and message="format_tender_notification t" and s=s] Inr y by simp
    show ?thesis
    proof (cases "send_each chan user_id ts s1")
      case (Inl x)
      obtain e s2 where x: "x = (e, s2)" by (cases x)
      have "kept s1 s2" using Cons.IH[where s=s1] Inl x by simp
      then have "kept s s2" using k1 kept_trans by blast
      then show ?thesis using Inr y Inl x
        by (simp add: send_tender_notification_def)
    next
      case (Inr s2)
      have "kept s1 s2" using Cons.IH[where s=s1] Inr by simp
      then have "kept s s2" using k1 kept_trans by blast
      then show ?thesis using \<open>send_message chan user_id (format_tender_notification t) s = Inr y\<close> y Inr
        by (simp add: send_tender_notification_def)
    qed
  qed
qed

lemma send_multiple_keeps:
  "case send_multiple_tenders_notification chan user_id tenders s of
     Inl (e, s') \<Rightarrow> kept s s' | Inr (b, s') \<Rightarrow> kept s s'"
proof (cases "tenders = [] \<or> length tenders = 1")
  case True
  then show ?thesis
    using send_message_keeps[where chan=chan and user_id=user_id and message="format_tender_notification (tenders ! 0)" and s=s]
    by (auto simp: send_multiple_tenders_notification_def send_tender_notification_def)
next
  case False
  show ?thesis
  proof (cases "send_message chan user_id (summary_message tenders) s")
    case (Inl x)
    then show ?thesis
      using False send_message_keeps[where chan=chan and user_id=user_id and message="summary_message tenders" and s=s]
      by (simp add: send_multiple_tenders_notification_def split: prod.splits)
  next
    case (Inr y)
    obtain b s1 where y: "y = (b, s1)" by (cases y)
    have k1: "kept s s1"
      using send_message_keeps[where chan=chan and user_id=user_id and message="summary_message tenders" and s=s] Inr y by simp
    show ?thesis
    proof (cases "send_each chan user_id tenders s1")
      case (Inl x)
      obtain e s2 where x: "x = (e, s2)" by (cases x)
      have "kept s1 s2" using send_each_keeps[where chan=chan and user_id=user_id and tenders=tenders and s=s1] Inl x by simp
      then have "kept s s2" using k1 kept_trans by blast
      then show ?thesis using False Inr y Inl x
        by (simp add: send_multiple_tenders_notification_def)
    next
      case (Inr s2)
      have "kept s1 s2" using send_each_keeps[where chan=chan and user_id=user_id and tenders=tenders and s=s1] Inr by simp
      then have "kept s s2" using k1 kept_trans by blast
      then show ?thesis
        using False \<open>send_message chan user_id (summary_message tenders) s = Inr y\<close> y Inr
        by (simp add: send_multiple_tenders_notification_def)
    qed
  qed
qed

lemma job_history:
  "tender_history (run_monitoring_job chan response now s) =
     tender_history (state_of (search_tenders False response now s))"
proof (cases "search_tenders False response now s")
  case (Inl x)
  obtain e s1 where x: "x = (e, s1)" by (cases x)
  show ?thesis using Inl x by (simp add: run_monitoring_job_def)
next
  case (Inr y)
  obtain new_tenders s1 where y: "y = (new_tenders, s1)" by (cases y)
  show ?thesis
  proof (cases "new_tenders = []")
    case True
    then show ?thesis using Inr y by (simp add: run_monitoring_job_def)
  next
    case False
    show ?thesis
    proof (cases "send_multiple_tenders_notification chan None (map as_dict new_tenders) s1")
      case (Inl x)
      obtain e s2 where x: "x = (e, s2)" by (cases x)
      have "kept s1 s2"
        using send_multiple_keeps[where chan=chan and user_id=None and tenders="map as_dict new_tenders" and s=s1] Inl x by simp
      then show ?thesis using \<open>search_tenders False response now s = Inr y\<close> y False Inl x
        by (simp add: run_monitoring_job_def kept_def)
    next
      case (Inr z)
      obtain b s2 where z: "z = (b, s2)" by (cases z)
      have "kept s1 s2"
        using send_multiple_keeps[where chan=chan and user_id=None and tenders="map as_dict new_tenders" and s=s1] Inr z by simp
      then show ?thesis using \<open>search_tenders False response now s = Inr y\<close> y False Inr z
        by (simp add: run_monitoring_job_def kept_def)
    qed
  qed
qed

lemma job_seen:
  assumes "batch_ids response \<subseteq> dom (map_of (tender_history s))"
  shows "calls (trace (run_monitoring_job chan response now s)) = calls (trace s)"
proof (cases "search_tenders False response now s")
  case (Inl x)
  obtain e s1 where x: "x = (e, s1)" by (cases x)
  show ?thesis
    using Inl x search_calls[of False response now s] by (simp add: run_monitoring_job_def)
next
  case (Inr y)
  obtain new_tenders s1 where y: "y = (new_tenders, s1)" by (cases y)
  have "new_tenders = []" using search_seen[OF assms, of False now] Inr y by simp
  then show ?thesis
    using Inr y search_calls[of False response now s] by (simp add: run_monitoring_job_def)
qed

lemma py_isspace_ascii [simp]:
  "py_isspace 10" "py_isspace 32" "\<not> py_isspace 47"
  by (simp_all add: py_isspace_def)

lemma strip_example:
  "strip (ascii ''A001'') = ascii ''A001''" "strip (ascii ''A002'') = ascii ''A002''"
  "strip (ascii ''A009'') = ascii ''A009''"
  "strip (ascii ''1'') = ascii ''1''" "strip (ascii ''2'') = ascii ''2''"
  "strip (ascii ''3'') = ascii ''3''" "strip (ascii ''x'') = ascii ''x''"
  "strip (ascii ''Org'') = ascii ''Org''" "strip (ascii ''Title'') = ascii ''Title''"
  "strip (ascii ''T'') = ascii ''T''" "strip (ascii ''M'') = ascii ''M''"
  "strip (ascii ''K'') = ascii ''K''" "strip (ascii ''113/04/02'') = ascii ''113/04/02''"
  "strip (ascii ''113/05/02'') = ascii ''113/05/02''" "strip (ascii ''1000'') = ascii ''1000''"
  by (simp_all add: strip_def ascii_def py_isspace_def)

lemma parse_example_row:
  "ident \<in> {''A001'', ''A002''} \<Longrightarrow>
   parse_tender_row now (example_row item ident hrefs) =
     Inr (example_tender ident
            (case hrefs of
               Some href # _ \<Rightarrow>
                 if startswith_slash href then ascii ''https://web.pcc.gov.tw'' @ href
                 else ascii ''https://web.pcc.gov.tw/'' @ href
             | _ \<Rightarrow> []) now)"
  by (auto simp: parse_tender_row_def example_row_def example_tender_def text_cell_def
      get_text_def cell_text_def split_first_line_def Let_def strip_def ascii_def py_isspace_def)

lemma qualifies_example [simp]:
  "qualifies (example_row ''1'' ident hrefs)" "qualifies (example_row ''2'' ident hrefs)"
  "\<not> qualifies (example_row ''x'' ident hrefs)"
  by (simp_all add: qualifies_def example_row_def text_cell_def cell_text_def strip_example
      integer_pattern_def) (simp_all add: ascii_def py_isdecimal_def nd_blocks_def)

lemma send_message_result:
  "send_message chan user_id message s = Inr (b, s') \<Longrightarrow>
     b = (chan (trace s) (api_call user_id message) = Delivered) \<and>
     calls (trace s') = calls (trace s) @ [api_call user_id message]"
  by (auto simp: send_message_def Let_def split: channel_result.splits)

lemma send_message_returns:
  "\<forall>tr c e. chan tr c \<noteq> Raised e \<Longrightarrow> \<exists>b s'. send_message chan user_id message s = Inr (b, s')"
  by (cases "chan (trace s) (api_call user_id message)")
     (auto simp: send_message_def Let_def)

lemma send_each_calls:
  "send_each chan user_id tenders s = Inr s' \<Longrightarrow>
     calls (trace s') =
       calls (trace s) @ map (\<lambda>t. api_call user_id (format_tender_notification t)) tenders"
proof (induction tenders arbitrary: s)
  case Nil
  then show ?case by simp
next
  case (Cons t ts)
  from Cons.prems obtain b s1 where
    m: "send_message chan user_id (format_tender_notification t) s = Inr (b, s1)" and
    r: "send_each chan user_id ts s1 = Inr s'"
    by (auto simp: send_tender_notification_def split: sum.splits)
  show ?case
    using send_message_result[OF m] Cons.IH[OF r] by simp
qed

lemma send_each_returns:
  "\<forall>tr c e. chan tr c \<noteq> Raised e \<Longrightarrow> \<exists>s'. send_each chan user_id tenders s = Inr s'"
proof (induction tenders arbitrary: s)
  case Nil
  then show ?case by simp
next
  case (Cons t ts)
  obtain b s1 where "send_message chan user_id (format_tender_notification t) s = Inr (b, s1)"
    using send_message_returns[OF Cons.prems] by blast
  then show ?case using Cons.IH[OF Cons.prems, of s1]
    by (simp add: send_tender_notification_def)
qed

lemma api_call_None [simp]: "api_call None message = Broadcast message"
  by (simp add: api_call_def)

lemma send_message_api_error:
  "chan (trace s) (api_call user_id message) = LineBotApiError \<Longrightarrow>
     send_message chan user_id message s =
       Inr (False, emit (Logged ERROR) (emit (Called (api_call user_id message)) s))"
  by (simp add: send_message_def Let_def)

lemma send_message_delivered:
  "chan (trace s) (api_call user_id message) = Delivered \<Longrightarrow>
     send_message chan user_id message s =
       Inr (True, emit (Called (api_call user_id message)) s)"
  by (simp add: send_message_def Let_def)

lemma send_message_raised:
  "chan (trace s) (api_call user_id message) = Raised e \<Longrightarrow>
     send_message chan user_id message s =
       Inl (e, emit (Called (api_call user_id message)) s)"
  by (simp add: send_message_def Let_def)

lemma load_history_recovers:
  "history_file s = Absent \<Longrightarrow> load_history json_loads s = Inr ([], s)"
  "history_file s = Raw bytes \<Longrightarrow> utf8_decode bytes = Some text \<Longrightarrow> json_loads text = None \<Longrightarrow>
     load_history json_loads s = Inr ([], emit (Logged ERROR) s)"
  "history_file s = Cut \<Longrightarrow> load_history json_loads s = Inr ([], emit (Logged ERROR) s)"
  "history_file s = Stored h \<Longrightarrow> load_history json_loads s = Inr (h, s)"
  by (simp_all add: load_history_def)

lemma key_distinct [simp]:
  "ascii ''deadline'' \<noteq> ascii ''id''" "ascii ''deadline'' \<noteq> ascii ''title''"
  "ascii ''deadline'' \<noteq> ascii ''organization''" "ascii ''deadline'' \<noteq> ascii ''date''"
  "ascii ''deadline'' \<noteq> ascii ''link''" "ascii ''deadline'' \<noteq> ascii ''budget''"
  "ascii ''budget'' \<noteq> ascii ''id''" "ascii ''budget'' \<noteq> ascii ''title''"
  "ascii ''budget'' \<noteq> ascii ''organization''" "ascii ''budget'' \<noteq> ascii ''date''"
  "ascii ''budget'' \<noteq> ascii ''link''"
  "ascii ''id'' \<noteq> ascii ''title''" "ascii ''id'' \<noteq> ascii ''organization''"
  "ascii ''id'' \<noteq> ascii ''date''" "ascii ''id'' \<noteq> ascii ''link''"
  "ascii ''title'' \<noteq> ascii ''organization''" "ascii ''title'' \<noteq> ascii ''date''"
  "ascii ''title'' \<noteq> ascii ''link''"
  "ascii ''organization'' \<noteq> ascii ''date''" "ascii ''organization'' \<noteq> ascii ''link''"
  "ascii ''date'' \<noteq> ascii ''link''"
  by (simp_all add: ascii_def)

lemma format_missing_field:
  "k \<in> {ascii ''id'', ascii ''title'', ascii ''organization'', ascii ''date''} \<Longrightarrow>
   tender k = None \<Longrightarrow>
   format_tender_notification tender = format_tender_notification (tender(k \<mapsto> ascii ''N/A''))"
  using key_distinct
  by (auto simp add: format_tender_notification_def dict_get_def simp del: key_distinct)

lemma format_missing_link:
  "tender (ascii ''link'') = None \<Longrightarrow>
   format_tender_notification tender =
     msg_header
     @ label_id @ dict_get tender (ascii ''id'') (ascii ''N/A'') @ [10]
     @ label_title @ dict_get tender (ascii ''title'') (ascii ''N/A'') @ [10]
     @ label_organization @ dict_get tender (ascii ''organization'') (ascii ''N/A'') @ [10]
     @ label_date @ dict_get tender (ascii ''date'') (ascii ''N/A'') @ [10]
     @ msg_footer"
  by (simp add: format_tender_notification_def)

lemma format_ignores_deadline_budget:
  "format_tender_notification (tender(ascii ''deadline'' := x, ascii ''budget'' := y)) =
     format_tender_notification tender"
  using key_distinct
  by (simp add: format_tender_notification_def dict_get_def del: key_distinct)

lemma classify_subset:
  "set (fst (classify now rows [] s)) \<subseteq> set (parsed now rows)"
  using classify_appends[of now rows "[]" s] by auto

lemma search_subset:
  "set (new_tenders_of (search_tenders debug (Response st (Some tender_rows)) now s))
     \<subseteq> set (parsed now (data_rows tender_rows))"
proof (cases "raise_for_status st")
  case True
  then show ?thesis by (simp add: search_failed)
next
  case False
  show ?thesis
  proof (cases "data_rows tender_rows = []")
    case True
    then show ?thesis using False by (simp add: search_no_rows)
  next
    case ne: False
    show ?thesis
      using classify_subset[of now "data_rows tender_rows" "debug_copy debug s"]
      by (auto simp: search_rows[OF False ne])
  qed
qed

lemma search_items:
  "set (tender_history (state_of (search_tenders debug (Response st (Some tender_rows)) now s)))
     \<subseteq> set (tender_history s) \<union> set (items_of (parsed now (data_rows tender_rows)))"
proof (cases "raise_for_status st")
  case True
  then show ?thesis by (simp add: search_failed)
next
  case False
  show ?thesis
  proof (cases "data_rows tender_rows = []")
    case True
    then show ?thesis using False by (simp add: search_no_rows)
  next
    case ne: False
    obtain new where
      "tender_history (snd (classify now (data_rows tender_rows) [] (debug_copy debug s)))
         = tender_history (debug_copy debug s) @ items_of new"
      "set new \<subseteq> set (parsed now (data_rows tender_rows))"
      using classify_appends[of now "data_rows tender_rows" "[]" "debug_copy debug s"] by blast
    then show ?thesis by (auto simp: search_rows[OF False ne] items_of_def)
  qed
qed

lemma example_tender_id [simp]: "tender_id (example_tender ident l now) = ascii ident"
  by (simp add: example_tender_def)

lemma example_ids_distinct [simp]:
  "ascii ''A001'' \<noteq> ascii ''A002''" "ascii ''A002'' \<noteq> ascii ''A001''"
  by (simp_all add: ascii_def)

lemma send_multiple_contract:
  "send_multiple_tenders_notification chan user_id [] s = Inr (True, s)
   \<and> send_multiple_tenders_notification chan user_id [t] s =
       send_tender_notification chan user_id t s
   \<and> (2 \<le> length tenders \<and>
        send_multiple_tenders_notification chan user_id tenders s = Inr (b, s') \<longrightarrow>
          b = (chan (trace s) (api_call user_id (summary_message tenders)) = Delivered) \<and>
          calls (trace s') =
            calls (trace s) @ api_call user_id (summary_message tenders)
              # map (\<lambda>t. api_call user_id (format_tender_notification t)) tenders)
   \<and> ((\<forall>tr c e. chan tr c \<noteq> Raised e) \<longrightarrow>
        (\<exists>b s'. send_multiple_tenders_notification chan user_id tenders s = Inr (b, s')))"
proof (intro conjI impI)
  show "send_multiple_tenders_notification chan user_id [] s = Inr (True, s)"
    by (simp add: send_multiple_tenders_notification_def)
  show "send_multiple_tenders_notification chan user_id [t] s =
          send_tender_notification chan user_id t s"
    by (simp add: send_multiple_tenders_notification_def)
next
  assume a: "2 \<le> length tenders \<and>
             send_multiple_tenders_notification chan user_id tenders s = Inr (b, s')"
  then have ne: "tenders \<noteq> []" "length tenders \<noteq> 1" by auto
  from a ne obtain s1 where
    m: "send_message chan user_id (summary_message tenders) s = Inr (b, s1)" and
    r: "send_each chan user_id tenders s1 = Inr s'"
    by (auto simp: send_multiple_tenders_notification_def split: sum.splits)
  show "b = (chan (trace s) (api_call user_id (summary_message tenders)) = Delivered)"
    using send_message_result[OF m] by simp
  show "calls (trace s') =
          calls (trace s) @ api_call user_id (summary_message tenders)
            # map (\<lambda>t. api_call user_id (format_tender_notification t)) tenders"
    using send_message_result[OF m] send_each_calls[OF r] by simp
next
  assume nr: "\<forall>tr c e. chan tr c \<noteq> Raised e"
  obtain b1 s1 where m: "send_message chan user_id (summary_message tenders) s = Inr (b1, s1)"
    using send_message_returns[OF nr] by blast
  obtain s2 where r: "send_each chan user_id tenders s1 = Inr s2"
    using send_each_returns[OF nr] by blast
  obtain b0 s0 where
    "send_message chan user_id (format_tender_notification (tenders ! 0)) s = Inr (b0, s0)"
    using send_message_returns[OF nr] by blast
  then show "\<exists>b s'. send_multiple_tenders_notification chan user_id tenders s = Inr (b, s')"
    using m r by (auto simp: send_multiple_tenders_notification_def send_tender_notification_def)
qed

lemma search_seen_returns:
  assumes "batch_ids response \<subseteq> dom (map_of (tender_history s))"
    and "encodable (tender_history s)"
  shows "\<exists>s2. search_tenders debug response now s = Inr ([], s2)"
proof (cases rule: search_cases[of debug response now s])
  case failed
  then show ?thesis by simp
next
  case no_rows
  then show ?thesis by simp
next
  case (rows st tender_rows)
  have ids: "batch_ids response = tender_id ` set (parsed now (data_rows tender_rows))"
    using rows by (simp add: batch_ids_def parsed_ids_set[of now])
  have "\<forall>t \<in> set (parsed now (data_rows tender_rows)).
          map_of (tender_history (debug_copy debug s)) (tender_id t) \<noteq> None"
    using assms(1) ids by (auto simp: domIff simp del: dom_map_of_conv_image_fst)
  then have "fst (classify now (data_rows tender_rows) [] (debug_copy debug s)) = []"
    and "tender_history (snd (classify now (data_rows tender_rows) [] (debug_copy debug s)))
               = tender_history (debug_copy debug s)"
    using classify_seen by blast+
  then show ?thesis using rows assms(2) by (simp add: search_rows save_history_ok)
qed

lemma has_surrogate_ascii [simp]: "\<not> has_surrogate (ascii s)"
proof -
  have "\<not> 55296 \<le> (of_char c :: nat)" for c :: char
    using nat_of_char_less_256[of c] by linarith
  then show ?thesis by (simp add: has_surrogate_def ascii_def list_ex_iff)
qed

lemma example_tender_encodable [simp]:
  "tender_encodable (example_tender ident l now) = (\<not> has_surrogate l \<and> \<not> has_surrogate now)"
  by (simp add: tender_encodable_def example_tender_def)

lemma has_surrogate_Nil [simp]: "\<not> has_surrogate []"
  by (simp add: has_surrogate_def)



section \<open>The claims\<close>

text \<open>
  Claim C1. Classification of a batch, in input order, against the history of the state:
  the records reported new are exactly those whose identifier is neither a key of the
  history before the run nor the identifier of an earlier record of the batch, which is
  the set of keys at the moment the record is classified since every new record is stored
  at once. An identifier is reported once when it is not yet a key and occurs in the
  batch, however often it occurs, and never otherwise. A key of the history before the run
  keeps its record, and a new key gets the first record of the batch that bears it: the
  dictionary after the run is the one before it with the new records appended.
\<close>

theorem classification_postcondition:
  "fst (classify now rows [] s) =
     map snd (filter (\<lambda>(i, t). tender_id t \<notin> dom (map_of (tender_history s)) \<union>
                                 tender_id ` set (take i (parsed now rows)))
                (enumerate 0 (parsed now rows)))
   \<and> length (filter (\<lambda>t. tender_id t = k) (fst (classify now rows [] s))) =
       (if map_of (tender_history s) k = None \<and> k \<in> tender_id ` set (parsed now rows) then 1 else 0)
   \<and> map_of (tender_history (snd (classify now rows [] s))) k =
       (case map_of (tender_history s) k of
          Some v \<Rightarrow> Some v
        | None \<Rightarrow> find (\<lambda>t. tender_id t = k) (parsed now rows))
   \<and> tender_history (snd (classify now rows [] s)) =
       tender_history s @ items_of (fst (classify now rows [] s))"
proof (intro conjI)
  show "fst (classify now rows [] s) =
     map snd (filter (\<lambda>(i, t). tender_id t \<notin> dom (map_of (tender_history s)) \<union>
                                 tender_id ` set (take i (parsed now rows)))
                (enumerate 0 (parsed now rows)))"
    using classify_new[of now rows "[]" s] by (simp only: append_Nil)
  show "length (filter (\<lambda>t. tender_id t = k) (fst (classify now rows [] s))) =
       (if map_of (tender_history s) k = None \<and> k \<in> tender_id ` set (parsed now rows) then 1 else 0)"
    using classify_count[of k now rows "[]" s] by simp
  show "map_of (tender_history (snd (classify now rows [] s))) k =
       (case map_of (tender_history s) k of
          Some v \<Rightarrow> Some v
        | None \<Rightarrow> find (\<lambda>t. tender_id t = k) (parsed now rows))"
    by (rule classify_history)
  show "tender_history (snd (classify now rows [] s)) =
       tender_history s @ items_of (fst (classify now rows [] s))"
    by (rule classify_items)
qed

text \<open>
  A batch in which the identifier A001 occurs twice, before A002, on an empty history:
  A001 is reported once.
\<close>

theorem classification_postcondition_witness:
  "fst (classify [] [example_row ''1'' ''A001'' [], example_row ''2'' ''A001'' [],
                     example_row ''3'' ''A002'' []] [] empty_state)
     = [example_tender ''A001'' [] [], example_tender ''A002'' [] []]
   \<and> length (filter (\<lambda>t. tender_id t = ascii ''A001'')
        (fst (classify [] [example_row ''1'' ''A001'' [], example_row ''2'' ''A001'' [],
                           example_row ''3'' ''A002'' []] [] empty_state))) = 1
   \<and> map_of (tender_history (snd (classify [] [example_row ''1'' ''A001'' [], example_row ''2'' ''A001'' [],
                           example_row ''3'' ''A002'' []] [] empty_state))) (ascii ''A002'')
       = Some (example_tender ''A002'' [] [])
   \<and> tender_history (snd (classify [] [example_row ''1'' ''A001'' [], example_row ''2'' ''A001'' [],
                           example_row ''3'' ''A002'' []] [] empty_state))
       = [(ascii ''A001'', example_tender ''A001'' [] []),
          (ascii ''A002'', example_tender ''A002'' [] [])]"
  using classification_postcondition[of "[]"
      "[example_row ''1'' ''A001'' [], example_row ''2'' ''A001'' [], example_row ''3'' ''A002'' []]"
      empty_state "ascii ''A001''"]
    classification_postcondition[of "[]"
      "[example_row ''1'' ''A001'' [], example_row ''2'' ''A001'' [], example_row ''3'' ''A002'' []]"
      empty_state "ascii ''A002''"]
  by (simp add: parse_example_row empty_state_def enumerate_eq_zip upt_rec items_of_def)

text \<open>
  Claim C2. For every response, a second run against the same response, from the state
  that the first run left, hands no new record to its caller, whatever the clock and
  the debug flag: it returns the empty list whenever the history can be written, and it
  can only raise otherwise. A second monitoring job after a first one calls the messaging
  API not once and leaves the history as it was.
\<close>

theorem second_run_idempotent:
  "new_tenders_of (search_tenders debug2 response now2
       (state_of (search_tenders debug1 response now1 s))) = []
   \<and> (encodable (tender_history (state_of (search_tenders debug1 response now1 s))) \<longrightarrow>
        (\<exists>s2. search_tenders debug2 response now2
                 (state_of (search_tenders debug1 response now1 s)) = Inr ([], s2)))
   \<and> new_tenders_of (search_tenders False response now2 (run_monitoring_job chan1 response now1 s)) = []
   \<and> calls (trace (run_monitoring_job chan2 response now2 (run_monitoring_job chan1 response now1 s)))
       = calls (trace (run_monitoring_job chan1 response now1 s))
   \<and> tender_history (run_monitoring_job chan2 response now2 (run_monitoring_job chan1 response now1 s))
       = tender_history (run_monitoring_job chan1 response now1 s)"
proof -
  let ?s1 = "state_of (search_tenders debug1 response now1 s)"
  let ?j1 = "run_monitoring_job chan1 response now1 s"
  have c1: "batch_ids response \<subseteq> dom (map_of (tender_history ?s1))" by (rule search_covers)
  have cj: "batch_ids response \<subseteq> dom (map_of (tender_history ?j1))"
    using search_covers[of response False now1 s] by (simp only: job_history)
  have a: "new_tenders_of (search_tenders debug2 response now2 ?s1) = []"
    using search_seen[OF c1, of debug2 now2] by blast
  have b: "encodable (tender_history ?s1) \<longrightarrow>
             (\<exists>s2. search_tenders debug2 response now2 ?s1 = Inr ([], s2))"
    using search_seen_returns[OF c1, of debug2 now2] by blast
  have c: "new_tenders_of (search_tenders False response now2 ?j1) = []"
    using search_seen[OF cj, of False now2] by blast
  have d: "calls (trace (run_monitoring_job chan2 response now2 ?j1)) = calls (trace ?j1)"
    using cj by (rule job_seen)
  have e: "tender_history (run_monitoring_job chan2 response now2 ?j1) = tender_history ?j1"
    using search_seen[OF cj, of False now2] by (simp add: job_history)
  from a b c d e show ?thesis by blast
qed

text \<open>
  The scenario of two rows A001 and A002 on an empty history: both are new in the first
  run, none in the second.
\<close>

theorem second_run_idempotent_witness:
  "encodable (tender_history (state_of (search_tenders False
       (Response 200 (Some [example_row ''1'' ''A001'' [], example_row ''2'' ''A002'' []])) []
       empty_state))) \<and>
   (\<exists>s2. search_tenders False
         (Response 200 (Some [example_row ''1'' ''A001'' [], example_row ''2'' ''A002'' []])) []
         (state_of (search_tenders False
                (Response 200 (Some [example_row ''1'' ''A001'' [], example_row ''2'' ''A002'' []])) []
                empty_state)) = Inr ([], s2))
   \<and> new_tenders_of (search_tenders False
           (Response 200 (Some [example_row ''1'' ''A001'' [], example_row ''2'' ''A002'' []])) []
           empty_state)
       = [example_tender ''A001'' [] [], example_tender ''A002'' [] []]"
proof -
  let ?r = "Response 200 (Some [example_row ''1'' ''A001'' [], example_row ''2'' ''A002'' []])"
  have first: "search_tenders False ?r [] empty_state =
      Inr ([example_tender ''A001'' [] [], example_tender ''A002'' [] []],
           \<lparr>tender_history = [(ascii ''A001'', example_tender ''A001'' [] []),
                              (ascii ''A002'', example_tender ''A002'' [] [])],
            history_file = Stored [(ascii ''A001'', example_tender ''A001'' [] []),
                                   (ascii ''A002'', example_tender ''A002'' [] [])],
            trace = [History_saved [(ascii ''A001'', example_tender ''A001'' [] []),
                                    (ascii ''A002'', example_tender ''A002'' [] [])]]\<rparr>)"
    by (simp add: search_tenders_def raise_for_status_def data_rows_filter parse_example_row
        empty_state_def save_history_def encodable_def emit_def)
  then have enc: "encodable (tender_history (state_of (search_tenders False ?r [] empty_state)))"
    by (simp add: encodable_def)
  have again: "\<exists>s2. search_tenders False ?r []
                 (state_of (search_tenders False ?r [] empty_state)) = Inr ([], s2)"
    using second_run_idempotent[of False ?r "[]" False "[]" empty_state] enc by blast
  from first have "new_tenders_of (search_tenders False ?r [] empty_state)
                 = [example_tender ''A001'' [] [], example_tender ''A002'' [] []]"
    by simp
  with enc again show ?thesis by blast
qed

text \<open>
  Claim C3, amended. When the request raises or the status is between 400 and 599,
  \<open>search_tenders\<close> returns the empty list and raises nothing, and the history in memory
  and the history file are as before; its one effect is an error record in the log.
\<close>

theorem fetch_failure_leaves_history:
  "fetch_fails response \<Longrightarrow>
     \<exists>s'. search_tenders debug response now s = Inr ([], s') \<and>
          tender_history s' = tender_history s \<and>
          history_file s' = history_file s \<and>
          trace s' = trace s @ [Logged ERROR]"
  by (cases response) (simp_all add: fetch_fails_def search_failed raise_for_status_def)

text \<open>The statement at a response with status 404 and at a request that raises.\<close>

theorem fetch_failure_leaves_history_witness:
  "fetch_fails (Response 404 None) \<and> fetch_fails Request_exception \<and>
   (\<exists>s'. search_tenders True (Response 404 None) [] empty_state = Inr ([], s') \<and>
         tender_history s' = tender_history empty_state \<and>
         history_file s' = history_file empty_state \<and>
         trace s' = trace empty_state @ [Logged ERROR]) \<and>
   (\<exists>s'. search_tenders False Request_exception [] empty_state = Inr ([], s') \<and>
         tender_history s' = tender_history empty_state \<and>
         history_file s' = history_file empty_state \<and>
         trace s' = trace empty_state @ [Logged ERROR])"
proof -
  have h: "fetch_fails (Response 404 None)" and g: "fetch_fails Request_exception"
    by (simp_all add: fetch_fails_def)
  show ?thesis
    using h g fetch_failure_leaves_history[OF h, of True "[]" empty_state]
      fetch_failure_leaves_history[OF g, of False "[]" empty_state]
    by blast
qed

text \<open>
  Claim C3 as it is written speaks of every status outside 200 to 299. A response with
  status 300 is not an error for \<open>raise_for_status\<close>: its table is read, the tender
  is reported new, stored, and the history file is written.
\<close>

theorem non_2xx_status_counterexample:
  "\<not> (200 \<le> (300::nat) \<and> (300::nat) < 300) \<and>
   tender_history empty_state = [] \<and>
   history_file empty_state = Absent \<and>
   search_tenders False (Response 300 (Some [example_row ''1'' ''A001'' []])) [] empty_state =
     Inr ([example_tender ''A001'' [] []],
          \<lparr>tender_history = [(ascii ''A001'', example_tender ''A001'' [] [])],
           history_file = Stored [(ascii ''A001'', example_tender ''A001'' [] [])],
           trace = [History_saved [(ascii ''A001'', example_tender ''A001'' [] [])]]\<rparr>)"
  by (simp add: search_tenders_def raise_for_status_def data_rows_filter parse_example_row
      empty_state_def save_history_def encodable_def emit_def)

text \<open>
  Claim C4, amended. When the fetch succeeds, the page has a results table with at least
  one qualifying row, and neither the history before the run nor a record of the batch
  holds a lone surrogate, the invocation returns and the history file is written exactly
  once, as the last effect of the invocation (after the debug copy, when asked for); what
  is written is the final history, and it holds the identifier of every record of the
  batch.
\<close>

theorem flush_once_after_classification:
  "\<not> fetch_fails (Response st (Some tender_rows)) \<Longrightarrow> data_rows tender_rows \<noteq> [] \<Longrightarrow>
   encodable (tender_history s) \<Longrightarrow>
   list_all tender_encodable (parsed now (data_rows tender_rows)) \<Longrightarrow>
     \<exists>new_tenders s'.
       search_tenders debug (Response st (Some tender_rows)) now s = Inr (new_tenders, s') \<and>
       trace s' = trace s @ (if debug then [Debug_saved] else []) @ [History_saved (tender_history s')] \<and>
       history_file s' = Stored (tender_history s') \<and>
       tender_id ` set (parsed now (data_rows tender_rows)) \<subseteq> fst ` set (tender_history s')"
proof -
  assume ok: "\<not> fetch_fails (Response st (Some tender_rows))" and ne: "data_rows tender_rows \<noteq> []"
    and eh: "encodable (tender_history s)"
    and eb: "list_all tender_encodable (parsed now (data_rows tender_rows))"
  let ?c = "classify now (data_rows tender_rows) [] (debug_copy debug s)"
  from ok have nr: "\<not> raise_for_status st" by (simp add: fetch_fails_def raise_for_status_def)
  have len: "\<forall>cells \<in> set (data_rows tender_rows). 9 \<le> length cells"
    using data_rows_length by blast
  have cov: "tender_id ` set (parsed now (data_rows tender_rows))
          \<subseteq> dom (map_of (tender_history (snd ?c)))"
    using classify_covers by (auto simp: domIff)
  obtain new where new: "tender_history (snd ?c) = tender_history (debug_copy debug s) @ items_of new"
    "set new \<subseteq> set (parsed now (data_rows tender_rows))"
    using classify_appends[of now "data_rows tender_rows" "[]" "debug_copy debug s"] by blast
  have "list_all tender_encodable new"
    using eb new(2) by (auto simp: list_all_iff)
  then have enc: "encodable (tender_history (snd ?c))"
    using eh new(1) by (simp add: encodable_items)
  have res: "search_tenders debug (Response st (Some tender_rows)) now s =
      Inr (fst ?c, emit (History_saved (tender_history (snd ?c)))
                     ((snd ?c)\<lparr>history_file := Stored (tender_history (snd ?c))\<rparr>))"
    by (simp add: search_rows[OF nr ne] save_history_ok[OF enc])
  show ?thesis
    using classify_quiet[OF len, of now "[]" "debug_copy debug s"] cov
    by (simp add: res dom_map_of_conv_image_fst)
qed

text \<open>The statement at a page with one qualifying row.\<close>

theorem flush_once_after_classification_witness:
  "\<not> fetch_fails (Response 200 (Some [example_row ''1'' ''A001'' []])) \<and>
   data_rows [example_row ''1'' ''A001'' []] \<noteq> [] \<and>
   encodable (tender_history empty_state) \<and>
   list_all tender_encodable (parsed [] (data_rows [example_row ''1'' ''A001'' []])) \<and>
   (\<exists>new_tenders s'.
       search_tenders False (Response 200 (Some [example_row ''1'' ''A001'' []])) [] empty_state
         = Inr (new_tenders, s') \<and>
       trace s' = trace empty_state @ (if False then [Debug_saved] else [])
                    @ [History_saved (tender_history s')] \<and>
       history_file s' = Stored (tender_history s') \<and>
       tender_id ` set (parsed [] (data_rows [example_row ''1'' ''A001'' []]))
         \<subseteq> fst ` set (tender_history s'))"
proof -
  have h1: "\<not> fetch_fails (Response 200 (Some [example_row ''1'' ''A001'' []]))"
    by (simp add: fetch_fails_def)
  have h2: "data_rows [example_row ''1'' ''A001'' []] \<noteq> []"
    by (simp add: data_rows_filter)
  have h3: "encodable (tender_history empty_state)"
    by (simp add: empty_state_def encodable_def)
  have h4: "list_all tender_encodable (parsed [] (data_rows [example_row ''1'' ''A001'' []]))"
    by (simp add: data_rows_filter parse_example_row)
  show ?thesis
    using h1 h2 h3 h4 flush_once_after_classification[OF h1 h2 h3 h4, of False] by blast
qed

text \<open>
  Claim C4 as it is written speaks of every invocation whose fetch succeeds. On a page
  without a results table the invocation returns early: nothing is written, and the
  history file stays absent.
\<close>

theorem no_flush_without_rows_counterexample:
  "\<not> fetch_fails (Response 200 None) \<and>
   search_tenders False (Response 200 None) [] empty_state = Inr ([], empty_state) \<and>
   trace empty_state = [] \<and>
   history_file empty_state = Absent"
  by (simp add: fetch_fails_def search_tenders_def raise_for_status_def empty_state_def)

text \<open>
  Outside the amended claim: a record with a lone surrogate in its title. The loop stores
  it, the write of the history raises \<open>UnicodeEncodeError\<close>, which leaves
  \<open>search_tenders\<close>, and the history file is left cut.
\<close>

lemma save_raises_on_surrogate:
  "search_tenders False (Response 200 (Some [surrogate_row])) [] empty_state =
     Inl (UnicodeEncodeError,
          \<lparr>tender_history = [(ascii ''A009'', (example_tender ''A009'' [] [])\<lparr>title := [55296]\<rparr>)],
           history_file = Cut,
           trace = [History_cut]\<rparr>)"
  by (simp add: search_tenders_def raise_for_status_def data_rows_filter qualifies_def
      integer_pattern_def text_cell_def cell_text_def surrogate_row_def strip_example
      parse_tender_row_def get_text_def split_first_line_def Let_def
      empty_state_def save_history_def encodable_def tender_encodable_def has_surrogate_def
      emit_def example_tender_def)
     (simp add: ascii_def strip_def py_isspace_def py_isdecimal_def nd_blocks_def)

text \<open>
  Claim C5 says that a batch of two or more records sends the summary, then one detail
  message for each record, and returns the result of the summary whatever becomes of
  the detail messages. With three records on a channel that delivers the summary and the
  first detail message and loses the connection at the second, the exception leaves
  \<open>send_multiple_tenders_notification\<close>: nothing is returned, although the summary was
  delivered, and the third detail message is never sent.
\<close>

theorem batch_aborted_by_raise:
  "drops_third_call [] (Broadcast (summary_message
       [example_dict ''A001'', example_dict ''A002'', example_dict ''A003''])) = Delivered
   \<and> send_multiple_tenders_notification drops_third_call None
       [example_dict ''A001'', example_dict ''A002'', example_dict ''A003''] empty_state =
     Inl (ConnectionError,
          \<lparr>tender_history = [], history_file = Absent,
           trace = [Called (Broadcast (summary_message
                      [example_dict ''A001'', example_dict ''A002'', example_dict ''A003''])),
                    Called (Broadcast (format_tender_notification (example_dict ''A001''))),
                    Called (Broadcast (format_tender_notification (example_dict ''A002'')))]\<rparr>)"
  by (simp add: send_message_def send_multiple_tenders_notification_def
      send_tender_notification_def drops_third_call_def empty_state_def emit_def Let_def)

text \<open>
  Claim C6 says that no exception of a send reaches the caller and that a failed send
  does not abort the rest of a batch. \<open>send_message\<close> catches \<open>LineBotApiError\<close> only:
  on a channel that raises \<open>ConnectionError\<close> the exception leaves \<open>send_message\<close>, and
  when it is raised by the first detail message of a batch of two, the second detail
  message is never sent.
\<close>

theorem send_failure_propagates:
  "send_message (\<lambda>tr c. Raised ConnectionError) user_id message s =
     Inl (ConnectionError, emit (Called (api_call user_id message)) s)
   \<and> send_multiple_tenders_notification drops_second_call None
       [example_dict ''A001'', example_dict ''A002''] empty_state =
     Inl (ConnectionError,
          \<lparr>tender_history = [], history_file = Absent,
           trace = [Called (Broadcast (summary_message [example_dict ''A001'', example_dict ''A002''])),
                    Called (Broadcast (format_tender_notification (example_dict ''A001'')))]\<rparr>)"
  by (simp add: send_message_def send_multiple_tenders_notification_def
      send_tender_notification_def drops_second_call_def empty_state_def emit_def Let_def)

text \<open>
  Claim C7, amended. In the single notification, each of the keys \<open>id\<close>, \<open>title\<close>,
  \<open>organization\<close> and \<open>date\<close> that is missing is rendered exactly as if it held the text
  \<open>N/A\<close>. The text is the header, the four lines of these keys and the footer; the line
  of the link stands between them exactly when the record has a link that is not empty,
  and a record without a link or with the empty link has no such line. The text does not
  depend on \<open>deadline\<close> and \<open>budget\<close>, which are not rendered.
\<close>

theorem placeholder_rendering:
  "(k \<in> {ascii ''id'', ascii ''title'', ascii ''organization'', ascii ''date''} \<and> tender k = None \<longrightarrow>
      format_tender_notification tender =
        format_tender_notification (tender(k \<mapsto> ascii ''N/A'')))
   \<and> (tender (ascii ''link'') = None \<or> tender (ascii ''link'') = Some [] \<longrightarrow>
      format_tender_notification tender =
        msg_header
        @ label_id @ dict_get tender (ascii ''id'') (ascii ''N/A'') @ [10]
        @ label_title @ dict_get tender (ascii ''title'') (ascii ''N/A'') @ [10]
        @ label_organization @ dict_get tender (ascii ''organization'') (ascii ''N/A'') @ [10]
        @ label_date @ dict_get tender (ascii ''date'') (ascii ''N/A'') @ [10]
        @ msg_footer)
   \<and> (tender (ascii ''link'') = Some l \<and> l \<noteq> [] \<longrightarrow>
      format_tender_notification tender =
        msg_header
        @ label_id @ dict_get tender (ascii ''id'') (ascii ''N/A'') @ [10]
        @ label_title @ dict_get tender (ascii ''title'') (ascii ''N/A'') @ [10]
        @ label_organization @ dict_get tender (ascii ''organization'') (ascii ''N/A'') @ [10]
        @ label_date @ dict_get tender (ascii ''date'') (ascii ''N/A'') @ [10]
        @ label_link @ l @ [10]
        @ msg_footer)
   \<and> format_tender_notification (tender(ascii ''deadline'' := x, ascii ''budget'' := y)) =
       format_tender_notification tender"
proof (intro conjI impI)
  assume "k \<in> {ascii ''id'', ascii ''title'', ascii ''organization'', ascii ''date''} \<and> tender k = None"
  then show "format_tender_notification tender =
        format_tender_notification (tender(k \<mapsto> ascii ''N/A''))"
    using format_missing_field[of k tender] by blast
next
  assume "tender (ascii ''link'') = None \<or> tender (ascii ''link'') = Some []"
  then show "format_tender_notification tender =
        msg_header
        @ label_id @ dict_get tender (ascii ''id'') (ascii ''N/A'') @ [10]
        @ label_title @ dict_get tender (ascii ''title'') (ascii ''N/A'') @ [10]
        @ label_organization @ dict_get tender (ascii ''organization'') (ascii ''N/A'') @ [10]
        @ label_date @ dict_get tender (ascii ''date'') (ascii ''N/A'') @ [10]
        @ msg_footer"
    by (auto simp: format_tender_notification_def)
next
  assume "tender (ascii ''link'') = Some l \<and> l \<noteq> []"
  then show "format_tender_notification tender =
        msg_header
        @ label_id @ dict_get tender (ascii ''id'') (ascii ''N/A'') @ [10]
        @ label_title @ dict_get tender (ascii ''title'') (ascii ''N/A'') @ [10]
        @ label_organization @ dict_get tender (ascii ''organization'') (ascii ''N/A'') @ [10]
        @ label_date @ dict_get tender (ascii ''date'') (ascii ''N/A'') @ [10]
        @ label_link @ l @ [10]
        @ msg_footer"
    by (auto simp: format_tender_notification_def)
next
  show "format_tender_notification (tender(ascii ''deadline'' := x, ascii ''budget'' := y)) =
       format_tender_notification tender"
    by (rule format_ignores_deadline_budget)
qed

text \<open>
  The statement at the empty record, at a record of the scraper without an anchor, whose
  link is empty and which has no key \<open>date\<close>, and at one with a link.
\<close>

theorem placeholder_rendering_witness:
  "ascii ''id'' \<in> {ascii ''id'', ascii ''title'', ascii ''organization'', ascii ''date''} \<and>
   (Map.empty :: tender_dict) (ascii ''id'') = None \<and>
   format_tender_notification Map.empty =
     format_tender_notification [ascii ''id'' \<mapsto> ascii ''N/A''] \<and>
   (Map.empty :: tender_dict) (ascii ''link'') = None \<and>
   format_tender_notification Map.empty =
     msg_header
     @ label_id @ ascii ''N/A'' @ [10]
     @ label_title @ ascii ''N/A'' @ [10]
     @ label_organization @ ascii ''N/A'' @ [10]
     @ label_date @ ascii ''N/A'' @ [10]
     @ msg_footer \<and>
   as_dict (example_tender ''A001'' [] []) (ascii ''link'') = Some [] \<and>
   format_tender_notification (as_dict (example_tender ''A001'' [] [])) =
     msg_header
     @ label_id @ ascii ''A001'' @ [10]
     @ label_title @ ascii ''Title'' @ [10]
     @ label_organization @ ascii ''Org'' @ [10]
     @ label_date @ ascii ''N/A'' @ [10]
     @ msg_footer \<and>
   as_dict (example_tender ''A001'' (ascii ''https://web.pcc.gov.tw/x'') []) (ascii ''link'')
     = Some (ascii ''https://web.pcc.gov.tw/x'') \<and>
   ascii ''https://web.pcc.gov.tw/x'' \<noteq> [] \<and>
   format_tender_notification (as_dict (example_tender ''A001'' (ascii ''https://web.pcc.gov.tw/x'') [])) =
     msg_header
     @ label_id @ ascii ''A001'' @ [10]
     @ label_title @ ascii ''Title'' @ [10]
     @ label_organization @ ascii ''Org'' @ [10]
     @ label_date @ ascii ''N/A'' @ [10]
     @ label_link @ ascii ''https://web.pcc.gov.tw/x'' @ [10]
     @ msg_footer"
proof -
  let ?e = "Map.empty :: tender_dict"
  let ?a = "as_dict (example_tender ''A001'' [] [])"
  let ?b = "as_dict (example_tender ''A001'' (ascii ''https://web.pcc.gov.tw/x'') [])"
  have k: "ascii ''id'' \<in> {ascii ''id'', ascii ''title'', ascii ''organization'', ascii ''date''}"
    by simp
  have la: "?a (ascii ''link'') = Some []"
    and lb: "?b (ascii ''link'') = Some (ascii ''https://web.pcc.gov.tw/x'')"
    and ne: "ascii ''https://web.pcc.gov.tw/x'' \<noteq> []"
    by (simp_all add: as_dict_def example_tender_def, simp_all add: ascii_def)
  have fa: "dict_get ?a (ascii ''id'') (ascii ''N/A'') = ascii ''A001''"
    "dict_get ?a (ascii ''title'') (ascii ''N/A'') = ascii ''Title''"
    "dict_get ?a (ascii ''organization'') (ascii ''N/A'') = ascii ''Org''"
    "dict_get ?a (ascii ''date'') (ascii ''N/A'') = ascii ''N/A''"
    "dict_get ?b (ascii ''id'') (ascii ''N/A'') = ascii ''A001''"
    "dict_get ?b (ascii ''title'') (ascii ''N/A'') = ascii ''Title''"
    "dict_get ?b (ascii ''organization'') (ascii ''N/A'') = ascii ''Org''"
    "dict_get ?b (ascii ''date'') (ascii ''N/A'') = ascii ''N/A''"
    by (simp_all add: dict_get_def as_dict_def example_tender_def, simp_all add: ascii_def)
  have e1: "format_tender_notification ?e = format_tender_notification [ascii ''id'' \<mapsto> ascii ''N/A'']"
    using placeholder_rendering[of "ascii ''id''" ?e "[]" None None, THEN conjunct1] k by simp
  have e2: "format_tender_notification ?e =
     msg_header
     @ label_id @ ascii ''N/A'' @ [10]
     @ label_title @ ascii ''N/A'' @ [10]
     @ label_organization @ ascii ''N/A'' @ [10]
     @ label_date @ ascii ''N/A'' @ [10]
     @ msg_footer"
    using placeholder_rendering[of "ascii ''id''" ?e "[]" None None, THEN conjunct2, THEN conjunct1]
    by (simp add: dict_get_def)
  have a2: "format_tender_notification ?a =
     msg_header
     @ label_id @ ascii ''A001'' @ [10]
     @ label_title @ ascii ''Title'' @ [10]
     @ label_organization @ ascii ''Org'' @ [10]
     @ label_date @ ascii ''N/A'' @ [10]
     @ msg_footer"
    using placeholder_rendering[of "ascii ''id''" ?a "[]" None None, THEN conjunct2, THEN conjunct1] la
    by (simp add: fa)
  have b3: "format_tender_notification ?b =
     msg_header
     @ label_id @ ascii ''A001'' @ [10]
     @ label_title @ ascii ''Title'' @ [10]
     @ label_organization @ ascii ''Org'' @ [10]
     @ label_date @ ascii ''N/A'' @ [10]
     @ label_link @ ascii ''https://web.pcc.gov.tw/x'' @ [10]
     @ msg_footer"
    using placeholder_rendering[of "ascii ''id''" ?b "ascii ''https://web.pcc.gov.tw/x''" None None,
        THEN conjunct2, THEN conjunct2, THEN conjunct1] lb ne
    by (simp add: fa)
  from k e1 e2 la a2 lb ne b3 show ?thesis by blast
qed

text \<open>
  Claim C7 as it is written wants a placeholder for a missing link, deadline or budget.
  For a record that has the four main fields and none of the three, the text is the
  header, four lines and the footer, and \<open>N/A\<close> does not occur in it.
\<close>

theorem optional_fields_counterexample:
  "example_dict ''A001'' (ascii ''link'') = None \<and>
   example_dict ''A001'' (ascii ''deadline'') = None \<and>
   example_dict ''A001'' (ascii ''budget'') = None \<and>
   format_tender_notification (example_dict ''A001'') =
     msg_header
     @ label_id @ ascii ''A001'' @ [10]
     @ label_title @ ascii ''Title'' @ [10]
     @ label_organization @ ascii ''Org'' @ [10]
     @ label_date @ ascii ''113/04/02'' @ [10]
     @ msg_footer \<and>
   \<not> contains (ascii ''N/A'') (format_tender_notification (example_dict ''A001''))"
  by (simp add: example_dict_def format_tender_notification_def dict_get_def ascii_def
      msg_header_def label_id_def label_title_def label_organization_def label_date_def
      msg_footer_def)

text \<open>
  Claim C8. The data rows are exactly the rows of the table that have at least 9 cells
  and whose first cell, stripped, matches the integer pattern, in the order of the table
  (the pattern \<open>^\d+$\<close> and one or more decimal digits agree on a stripped text). The
  parsed records correspond one to one to these rows; every tender that
  \<open>search_tenders\<close> returns is one of them, and so is every record that it adds to the
  history. A row that does not qualify is dropped without an error.
\<close>

theorem row_qualification:
  "data_rows tender_rows = filter qualifies tender_rows
   \<and> qualifies cells = (9 \<le> length cells \<and> re_match_digits (strip (cell_text (cells ! 0))))
   \<and> list_all2 (\<lambda>cells t. parse_tender_row now cells = Inr t)
        (filter qualifies tender_rows) (parsed now (data_rows tender_rows))
   \<and> set (new_tenders_of (search_tenders debug (Response st (Some tender_rows)) now s))
        \<subseteq> set (parsed now (data_rows tender_rows))
   \<and> set (tender_history (state_of (search_tenders debug (Response st (Some tender_rows)) now s)))
        \<subseteq> set (tender_history s) \<union> set (items_of (parsed now (data_rows tender_rows)))"
proof -
  have len: "\<forall>cells \<in> set (data_rows tender_rows). 9 \<le> length cells"
    using data_rows_length by blast
  have "list_all2 (\<lambda>cells t. parse_tender_row now cells = Inr t)
          (data_rows tender_rows) (parsed now (data_rows tender_rows))"
    using parsed_all2[OF len] .
  then show ?thesis
    using search_subset[of debug st tender_rows now s] search_items[of debug st tender_rows now s]
    by (simp add: data_rows_filter qualifies_def re_match_digits_strip)
qed

text \<open>
  Of a qualifying row, a row whose first cell is \<open>x\<close> and a row of two cells, only the
  first is kept and parsed.
\<close>

theorem row_qualification_witness:
  "data_rows [example_row ''1'' ''A001'' [], example_row ''x'' ''A002'' [],
              [text_cell ''2'', text_cell ''Org'']]
     = [example_row ''1'' ''A001'' []]
   \<and> parsed [] (data_rows [example_row ''1'' ''A001'' [], example_row ''x'' ''A002'' [],
                            [text_cell ''2'', text_cell ''Org'']])
     = [example_tender ''A001'' [] []]"
proof -
  have short: "\<not> qualifies [text_cell ''2'', text_cell ''Org'']"
    by (simp add: qualifies_def)
  have "data_rows [example_row ''1'' ''A001'' [], example_row ''x'' ''A002'' [],
                   [text_cell ''2'', text_cell ''Org'']]
          = filter qualifies [example_row ''1'' ''A001'' [], example_row ''x'' ''A002'' [],
                   [text_cell ''2'', text_cell ''Org'']]"
    using row_qualification by blast
  then show ?thesis using short by (simp add: parse_example_row)
qed

text \<open>
  Claim C9 says that loading a malformed history file gives the empty mapping and never
  raises. \<open>_load_history\<close> catches \<open>JSONDecodeError\<close> only: on a file whose bytes are not
  UTF-8 (the single byte FF; a JSON text cut inside a character of three bytes),
  \<open>UnicodeDecodeError\<close> leaves \<open>_load_history\<close> and the constructor of the scraper, whatever
  the JSON parser.
\<close>

theorem load_history_raises:
  "load_history json_loads \<lparr>tender_history = h, history_file = Raw [0xFF], trace = tr\<rparr> =
     Inl (UnicodeDecodeError, \<lparr>tender_history = h, history_file = Raw [0xFF], trace = tr\<rparr>)
   \<and> init_scraper json_loads \<lparr>tender_history = h, history_file = Raw [0xFF], trace = tr\<rparr> =
     Inl (UnicodeDecodeError, \<lparr>tender_history = h, history_file = Raw [0xFF], trace = tr\<rparr>)
   \<and> load_history json_loads
       \<lparr>tender_history = h, history_file = Raw [0x7B, 0x22, 0xE6, 0xA8], trace = tr\<rparr> =
     Inl (UnicodeDecodeError,
          \<lparr>tender_history = h, history_file = Raw [0x7B, 0x22, 0xE6, 0xA8], trace = tr\<rparr>)"
  by (simp add: load_history_def init_scraper_def utf8_decode_def continuation_def)

text \<open>
  Claim C10. A qualifying row is parsed, and its link is fixed by the first anchor of its
  third cell: an \<open>href\<close> that begins with a slash gives the host followed by the
  \<open>href\<close>, any other \<open>href\<close> gives the host, a slash and the \<open>href\<close>; when the third
  cell has no anchor, and so when the row has none, the link is empty.
\<close>

theorem link_host_prefix:
  "qualifies cells \<Longrightarrow>
     \<exists>t. parse_tender_row now cells = Inr t \<and>
       (\<forall>href more. anchors (cells ! 2) = Some href # more \<longrightarrow>
          (take 1 href = ascii ''/'' \<longrightarrow> link t = ascii ''https://web.pcc.gov.tw'' @ href) \<and>
          (take 1 href \<noteq> ascii ''/'' \<longrightarrow> link t = ascii ''https://web.pcc.gov.tw/'' @ href)) \<and>
       (anchors (cells ! 2) = [] \<longrightarrow> link t = []) \<and>
       ((\<forall>c \<in> set cells. anchors c = []) \<longrightarrow> link t = [])"
proof -
  assume q: "qualifies cells"
  then have len: "9 \<le> length cells" by (simp add: qualifies_def)
  then have mem: "cells ! 2 \<in> set cells" by simp
  have sl: "startswith_slash href = (take 1 href = ascii ''/'')" for href
    by (cases href) (auto simp: startswith_slash_def ascii_def)
  show ?thesis
    using len mem
    by (auto simp: parse_tender_row_def Let_def sl split: list.splits option.splits)
qed

text \<open>
  A relative \<open>href\<close> and one that is already an absolute URL: both get the host in
  front; a row without an anchor has the empty link.
\<close>

theorem link_host_prefix_witness:
  "qualifies (example_row ''1'' ''A001'' [Some (ascii ''/tps/x''), None]) \<and>
   qualifies (example_row ''2'' ''A002'' [Some (ascii ''https://a.tw/x'')]) \<and>
   qualifies (example_row ''1'' ''A002'' []) \<and>
   (\<exists>t. parse_tender_row [] (example_row ''1'' ''A001'' [Some (ascii ''/tps/x''), None]) = Inr t \<and>
        link t = ascii ''https://web.pcc.gov.tw/tps/x'') \<and>
   (\<exists>t. parse_tender_row [] (example_row ''2'' ''A002'' [Some (ascii ''https://a.tw/x'')]) = Inr t \<and>
        link t = ascii ''https://web.pcc.gov.tw/https://a.tw/x'') \<and>
   (\<exists>t. parse_tender_row [] (example_row ''1'' ''A002'' []) = Inr t \<and> link t = [])"
proof -
  let ?r1 = "example_row ''1'' ''A001'' [Some (ascii ''/tps/x''), None]"
  let ?r2 = "example_row ''2'' ''A002'' [Some (ascii ''https://a.tw/x'')]"
  let ?r3 = "example_row ''1'' ''A002'' []"
  have q1: "qualifies ?r1" and q2: "qualifies ?r2" and q3: "qualifies ?r3" by simp_all
  have a1: "anchors (?r1 ! 2) = Some (ascii ''/tps/x'') # [None]"
    and a2: "anchors (?r2 ! 2) = Some (ascii ''https://a.tw/x'') # []"
    and a3: "anchors (?r3 ! 2) = []"
    by (simp_all add: example_row_def)
  have t1: "take 1 (ascii ''/tps/x'') = ascii ''/''"
    and t2: "take 1 (ascii ''https://a.tw/x'') \<noteq> ascii ''/''"
    by (simp_all add: ascii_def)
  from link_host_prefix[OF q1, of "[]"] a1 t1 obtain u1 where
    u1: "parse_tender_row [] ?r1 = Inr u1" "link u1 = ascii ''https://web.pcc.gov.tw'' @ ascii ''/tps/x''"
    by blast
  from link_host_prefix[OF q2, of "[]"] a2 t2 obtain u2 where
    u2: "parse_tender_row [] ?r2 = Inr u2" "link u2 = ascii ''https://web.pcc.gov.tw/'' @ ascii ''https://a.tw/x''"
    by blast
  from link_host_prefix[OF q3, of "[]"] a3 obtain u3 where
    u3: "parse_tender_row [] ?r3 = Inr u3" "link u3 = []"
    by blast
  from u1 u2 u3 show ?thesis using q1 q2 q3 by (simp add: ascii_def)
qed

end
